theory Spec2Isabelle
  imports Main "HOL-Library.Sublist"
begin

section \<open>Strings of the host language\<close>

text \<open>
  The component of \<^verbatim>\<open>src/App.tsx\<close> works on JavaScript strings. They are modelled as
  \<^typ>\<open>string\<close>: a list of code units, each below 256 (Basic Latin and the Latin-1
  Supplement). On that range \<^verbatim>\<open>trim\<close>, \<^verbatim>\<open>toLowerCase\<close>, \<^verbatim>\<open>includes\<close>,
  \<^verbatim>\<open>JSON.stringify\<close>, \<^verbatim>\<open>toISOString\<close> and \<^verbatim>\<open>Number.prototype.toString\<close> stay inside it.
\<close>

definition isWhiteSpace :: "char \<Rightarrow> bool" where
  \<comment> \<open>WhiteSpace and LineTerminator code points below 256: TAB, LF, VT, FF, CR, SP, NBSP.\<close>
  "isWhiteSpace c =
     (c \<in> {CHR 0x09, CHR 0x0A, CHR 0x0B, CHR 0x0C, CHR 0x0D, CHR 0x20, CHR 0xA0})"

definition trim :: "string \<Rightarrow> string" where
  \<comment> \<open>\<^verbatim>\<open>String.prototype.trim\<close>: white space removed at both ends.\<close>
  "trim s = rev (dropWhile isWhiteSpace (rev (dropWhile isWhiteSpace s)))"

definition lowerChar :: "char \<Rightarrow> char" where
  \<comment> \<open>A-Z, and the capital letters of Latin-1 (U+00C0 to U+00DE without the sign U+00D7).\<close>
  "lowerChar c =
     (let n = (of_char c :: nat)
      in if (65 \<le> n \<and> n \<le> 90) \<or> (192 \<le> n \<and> n \<le> 222 \<and> n \<noteq> 215)
         then char_of (n + 32) else c)"

definition toLowerCase :: "string \<Rightarrow> string" where
  "toLowerCase s = map lowerChar s"

fun str_includes :: "string \<Rightarrow> string \<Rightarrow> bool" where
  \<comment> \<open>\<^verbatim>\<open>s.includes(q)\<close>: \<open>q\<close> occurs in \<open>s\<close> at some position.\<close>
  "str_includes [] q = (q = [])"
| "str_includes (c # cs) q = (prefix q (c # cs) \<or> str_includes cs q)"

definition digitChar :: "int \<Rightarrow> char" where
  "digitChar d = char_of (48 + d)"

function decimal :: "int \<Rightarrow> string" where
  \<comment> \<open>The decimal digits of a non-negative integer.\<close>
  "decimal n = (if n < 10 then [digitChar n] else decimal (n div 10) @ [digitChar (n mod 10)])"
  by pat_completeness auto
termination
  by (relation "measure nat") auto

declare decimal.simps [simp del]

definition Number_toString :: "int \<Rightarrow> string" where
  \<comment> \<open>\<^verbatim>\<open>toString()\<close> of an integral number below \<open>10^21\<close> in magnitude, as \<^verbatim>\<open>Date.now()\<close> is.\<close>
  "Number_toString n = (if n < 0 then CHR ''-'' # decimal (- n) else decimal n)"

section \<open>Dates\<close>

text \<open>
  A \<^verbatim>\<open>Date\<close> holds a time value: milliseconds since the epoch, or \<^verbatim>\<open>NaN\<close> for an
  invalid date.
\<close>

datatype jsdate = InvalidDate | TimeValue int

definition pad :: "nat \<Rightarrow> int \<Rightarrow> string" where
  "pad k n = replicate (k - length (decimal n)) (CHR ''0'') @ decimal n"

definition civil :: "int \<Rightarrow> int \<times> int \<times> int" where
  \<comment> \<open>Year, month and day of the proleptic Gregorian calendar from the day number.\<close>
  "civil days =
     (let z = days + 719468;
          era = z div 146097;
          doe = z mod 146097;
          yoe = (doe - doe div 1460 + doe div 36524 - doe div 146096) div 365;
          doy = doe - (365 * yoe + yoe div 4 - yoe div 100);
          mp = (5 * doy + 2) div 153;
          d = doy - (153 * mp + 2) div 5 + 1;
          m = (if mp < 10 then mp + 3 else mp - 9);
          y = yoe + era * 400 + (if m \<le> 2 then 1 else 0)
      in (y, m, d))"

definition yearString :: "int \<Rightarrow> string" where
  "yearString y =
     (if 0 \<le> y \<and> y \<le> 9999 then pad 4 y
      else if y < 0 then CHR ''-'' # pad 6 (- y)
      else CHR ''+'' # pad 6 y)"

definition toISOString :: "int \<Rightarrow> string" where
  \<comment> \<open>\<^verbatim>\<open>Date.prototype.toISOString\<close> of a valid time value.\<close>
  "toISOString t =
     (let (y, m, d) = civil (t div 86400000);
          ms = t mod 86400000
      in yearString y @ ''-'' @ pad 2 m @ ''-'' @ pad 2 d @ ''T''
         @ pad 2 (ms div 3600000) @ '':'' @ pad 2 (ms div 60000 mod 60) @ '':''
         @ pad 2 (ms div 1000 mod 60) @ ''.'' @ pad 3 (ms mod 1000) @ ''Z'')"

section \<open>Data model\<close>

definition SERVICE_OPTIONS :: "string list" where
  "SERVICE_OPTIONS = [''Haircut'', ''Massage'', ''Consultation'']"

text \<open>
  \<^verbatim>\<open>type Booking\<close>. The field \<open>service\<close> is declared \<^verbatim>\<open>ServiceType\<close>; the declaration is
  erased at run time and a stored collection is read back unchecked, so the field holds a
  string.
\<close>

record Booking =
  b_id :: string
  b_name :: string
  b_date :: string
  b_service :: string

record FormErrors =
  e_name :: "string option"
  e_date :: "string option"
  e_service :: "string option"

definition noErrors :: FormErrors where
  "noErrors = \<lparr>e_name = None, e_date = None, e_service = None\<rparr>"

section \<open>The schema\<close>

text \<open>
  \<^verbatim>\<open>bookingSchema\<close> is built from three combinators of the validation library: the
  string schema trims and then requires length at least 1; the date schema rejects an
  absent value with the \<^verbatim>\<open>required_error\<close> message and an invalid \<^verbatim>\<open>Date\<close> with the
  library's message; the enum schema rejects everything but the listed literals, an absent
  value too, with the message of its \<^verbatim>\<open>errorMap\<close>. The issues come in the order of the keys.
\<close>

record schema_input =
  in_name :: string
  in_date :: "jsdate option"
  in_service :: "string option"

record schema_output =
  out_name :: string
  out_date :: int
  out_service :: string

datatype issue = Issue (path: string) (message: string)

definition name_schema :: "string \<Rightarrow> issue list + string" where
  "name_schema n =
     (let t = trim n
      in if length t < 1 then Inl [Issue ''name'' ''Name is required''] else Inr t)"

definition date_schema :: "jsdate option \<Rightarrow> issue list + int" where
  "date_schema d =
     (case d of
        None \<Rightarrow> Inl [Issue ''date'' ''Date is required'']
      | Some InvalidDate \<Rightarrow> Inl [Issue ''date'' ''Invalid date'']
      | Some (TimeValue t) \<Rightarrow> Inr t)"

definition service_schema :: "string option \<Rightarrow> issue list + string" where
  "service_schema s =
     (case s of
        None \<Rightarrow> Inl [Issue ''service'' ''Service is required'']
      | Some v \<Rightarrow>
          if v \<in> set SERVICE_OPTIONS then Inr v
          else Inl [Issue ''service'' ''Service is required''])"

definition issues_of :: "issue list + 'a \<Rightarrow> issue list" where
  "issues_of r = (case r of Inl is \<Rightarrow> is | Inr _ \<Rightarrow> [])"

definition safeParse :: "schema_input \<Rightarrow> issue list + schema_output" where
  "safeParse i =
     (case (name_schema (in_name i), date_schema (in_date i), service_schema (in_service i)) of
        (Inr n, Inr d, Inr s) \<Rightarrow> Inr \<lparr>out_name = n, out_date = d, out_service = s\<rparr>
      | (rn, rd, rs) \<Rightarrow> Inl (issues_of rn @ issues_of rd @ issues_of rs))"

definition setField :: "FormErrors \<Rightarrow> issue \<Rightarrow> FormErrors" where
  \<comment> \<open>\<^verbatim>\<open>fieldErrors[field] = err.message\<close>\<close>
  "setField e i =
     (if path i = ''name'' then e\<lparr>e_name := Some (message i)\<rparr>
      else if path i = ''date'' then e\<lparr>e_date := Some (message i)\<rparr>
      else if path i = ''service'' then e\<lparr>e_service := Some (message i)\<rparr>
      else e)"

definition fieldErrors :: "issue list \<Rightarrow> FormErrors" where
  "fieldErrors is = foldl setField noErrors is"

section \<open>Serialisation\<close>

definition hexDigit :: "nat \<Rightarrow> char" where
  "hexDigit d = ''0123456789abcdef'' ! d"

definition quoteChar :: "char \<Rightarrow> string" where
  \<comment> \<open>One code unit inside a quoted JSON string, as \<^verbatim>\<open>JSON.stringify\<close> writes it.\<close>
  "quoteChar c =
     (if c = CHR 0x08 then [CHR 0x5C, CHR ''b'']
      else if c = CHR 0x09 then [CHR 0x5C, CHR ''t'']
      else if c = CHR 0x0A then [CHR 0x5C, CHR ''n'']
      else if c = CHR 0x0C then [CHR 0x5C, CHR ''f'']
      else if c = CHR 0x0D then [CHR 0x5C, CHR ''r'']
      else if c = CHR 0x22 then [CHR 0x5C, CHR 0x22]
      else if c = CHR 0x5C then [CHR 0x5C, CHR 0x5C]
      else if (of_char c :: nat) < 32
        then [CHR 0x5C, CHR ''u'', CHR ''0'', CHR ''0'',
              hexDigit (of_char c div 16), hexDigit (of_char c mod 16)]
      else [c])"

definition quoteBody :: "string \<Rightarrow> string" where
  "quoteBody s = concat (map quoteChar s)"

definition QuoteJSONString :: "string \<Rightarrow> string" where
  "QuoteJSONString s = CHR 0x22 # quoteBody s @ [CHR 0x22]"

definition stringify_Booking :: "Booking \<Rightarrow> string" where
  "stringify_Booking b =
     ''{'' @ QuoteJSONString ''id'' @ '':'' @ QuoteJSONString (b_id b)
     @ '','' @ QuoteJSONString ''name'' @ '':'' @ QuoteJSONString (b_name b)
     @ '','' @ QuoteJSONString ''date'' @ '':'' @ QuoteJSONString (b_date b)
     @ '','' @ QuoteJSONString ''service'' @ '':'' @ QuoteJSONString (b_service b) @ ''}''"

fun stringify_elements :: "Booking list \<Rightarrow> string" where
  "stringify_elements [] = []"
| "stringify_elements [b] = stringify_Booking b"
| "stringify_elements (b # bs) = stringify_Booking b @ '','' @ stringify_elements bs"

definition JSON_stringify :: "Booking list \<Rightarrow> string" where
  \<comment> \<open>\<^verbatim>\<open>JSON.stringify(items)\<close> for \<^verbatim>\<open>items: Booking[]\<close>.\<close>
  "JSON_stringify bs = ''['' @ stringify_elements bs @ '']''"

section \<open>Deserialisation\<close>

text \<open>
  \<^verbatim>\<open>JSON.parse\<close> on a text of code units below 256. An escape \<^verbatim>\<open>\uXXXX\<close> can denote any
  16-bit code unit, so the strings of a parsed value are lists of code units as numbers. A
  number is kept as its lexeme: the component never reads one.
\<close>

datatype json =
  JNull | JBool bool | JNum string | JStr "nat list"
| JArr "json list" | JObj "(nat list \<times> json) list"

datatype token =
  TLBrace | TRBrace | TLBrack | TRBrack | TColon | TComma
| TString "nat list" | TNumber string | TTrue | TFalse | TNull

definition hexValue :: "char \<Rightarrow> nat option" where
  "hexValue c =
     (let n = (of_char c :: nat)
      in if 48 \<le> n \<and> n \<le> 57 then Some (n - 48)
         else if 97 \<le> n \<and> n \<le> 102 then Some (n - 87)
         else if 65 \<le> n \<and> n \<le> 70 then Some (n - 55)
         else None)"

definition hex4 :: "char \<Rightarrow> char \<Rightarrow> char \<Rightarrow> char \<Rightarrow> nat option" where
  "hex4 a b c d =
     (case (hexValue a, hexValue b, hexValue c, hexValue d) of
        (Some x, Some y, Some z, Some w) \<Rightarrow> Some (((x * 16 + y) * 16 + z) * 16 + w)
      | _ \<Rightarrow> None)"

definition unescape :: "char \<Rightarrow> nat option" where
  \<comment> \<open>The code unit of a two-character escape, by the character after the backslash.\<close>
  "unescape e =
     (if e = CHR 0x22 then Some 0x22
      else if e = CHR 0x5C then Some 0x5C
      else if e = CHR ''/'' then Some 0x2F
      else if e = CHR ''b'' then Some 0x08
      else if e = CHR ''f'' then Some 0x0C
      else if e = CHR ''n'' then Some 0x0A
      else if e = CHR ''r'' then Some 0x0D
      else if e = CHR ''t'' then Some 0x09
      else None)"

fun lex_string :: "string \<Rightarrow> (nat list \<times> string) option" where
  \<comment> \<open>The text after an opening quote: the string's code units and the text after the
      closing quote.\<close>
  "lex_string [] = None"
| "lex_string (c # cs) =
     (if c = CHR 0x22 then Some ([], cs)
      else if c = CHR 0x5C then
        (case cs of
           [] \<Rightarrow> None
         | e # r \<Rightarrow>
             if e = CHR ''u'' then
               (case r of
                  h1 # h2 # h3 # h4 # r' \<Rightarrow>
                    (case hex4 h1 h2 h3 h4 of
                       None \<Rightarrow> None
                     | Some n \<Rightarrow> map_option (\<lambda>(s, t). (n # s, t)) (lex_string r'))
                | _ \<Rightarrow> None)
             else
               (case unescape e of
                  None \<Rightarrow> None
                | Some n \<Rightarrow> map_option (\<lambda>(s, t). (n # s, t)) (lex_string r)))
      else if (of_char c :: nat) < 32 then None
      else map_option (\<lambda>(s, t). (of_char c # s, t)) (lex_string cs))"

definition isDigit :: "char \<Rightarrow> bool" where
  "isDigit c = (48 \<le> (of_char c :: nat) \<and> (of_char c :: nat) \<le> 57)"

definition lex_digits :: "string \<Rightarrow> (string \<times> string) option" where
  \<comment> \<open>One digit or more.\<close>
  "lex_digits s =
     (if takeWhile isDigit s = [] then None
      else Some (takeWhile isDigit s, dropWhile isDigit s))"

definition lex_int :: "string \<Rightarrow> (string \<times> string) option" where
  \<comment> \<open>\<^verbatim>\<open>0\<close>, or a digit from 1 to 9 followed by digits.\<close>
  "lex_int s =
     (case s of
        [] \<Rightarrow> None
      | c # cs \<Rightarrow>
          if c = CHR ''0'' then Some ([c], cs)
          else if isDigit c then Some (c # takeWhile isDigit cs, dropWhile isDigit cs)
          else None)"

definition lex_frac :: "string \<Rightarrow> (string \<times> string) option" where
  "lex_frac s =
     (case s of
        c # cs \<Rightarrow>
          if c = CHR ''.'' then map_option (\<lambda>(d, r). (c # d, r)) (lex_digits cs)
          else Some ([], s)
      | [] \<Rightarrow> Some ([], s))"

definition lex_sign :: "string \<Rightarrow> string \<times> string" where
  "lex_sign s =
     (case s of
        c # cs \<Rightarrow> if c = CHR ''+'' \<or> c = CHR ''-'' then ([c], cs) else ([], s)
      | [] \<Rightarrow> ([], s))"

definition lex_exp :: "string \<Rightarrow> (string \<times> string) option" where
  "lex_exp s =
     (case s of
        c # cs \<Rightarrow>
          if c = CHR ''e'' \<or> c = CHR ''E'' then
            (case lex_sign cs of
               (sg, r) \<Rightarrow> map_option (\<lambda>(d, r'). (c # sg @ d, r')) (lex_digits r))
          else Some ([], s)
      | [] \<Rightarrow> Some ([], s))"

definition lex_minus :: "string \<Rightarrow> string \<times> string" where
  "lex_minus s =
     (case s of
        c # cs \<Rightarrow> if c = CHR ''-'' then ([c], cs) else ([], s)
      | [] \<Rightarrow> ([], s))"

definition lex_number :: "string \<Rightarrow> (string \<times> string) option" where
  \<comment> \<open>The longest number at the head of the text, and the text after it.\<close>
  "lex_number s =
     (case lex_minus s of
        (m, r0) \<Rightarrow>
          (case lex_int r0 of
             None \<Rightarrow> None
           | Some (i, r1) \<Rightarrow>
               (case lex_frac r1 of
                  None \<Rightarrow> None
                | Some (f, r2) \<Rightarrow>
                    (case lex_exp r2 of
                       None \<Rightarrow> None
                     | Some (e, r3) \<Rightarrow> Some (m @ i @ f @ e, r3)))))"

definition isJSONWhiteSpace :: "char \<Rightarrow> bool" where
  "isJSONWhiteSpace c = (c \<in> {CHR 0x09, CHR 0x0A, CHR 0x0D, CHR 0x20})"

function lex :: "string \<Rightarrow> token list option" where
  "lex [] = Some []"
| "lex (c # cs) =
     (if isJSONWhiteSpace c then lex cs
      else if c = CHR ''{'' then map_option ((#) TLBrace) (lex cs)
      else if c = CHR ''}'' then map_option ((#) TRBrace) (lex cs)
      else if c = CHR ''['' then map_option ((#) TLBrack) (lex cs)
      else if c = CHR '']'' then map_option ((#) TRBrack) (lex cs)
      else if c = CHR '':'' then map_option ((#) TColon) (lex cs)
      else if c = CHR '','' then map_option ((#) TComma) (lex cs)
      else if c = CHR 0x22 then
        (case lex_string cs of
           None \<Rightarrow> None
         | Some (s, r) \<Rightarrow> map_option ((#) (TString s)) (lex r))
      else if c = CHR ''-'' \<or> isDigit c then
        (case lex_number (c # cs) of
           None \<Rightarrow> None
         | Some (n, r) \<Rightarrow> map_option ((#) (TNumber n)) (lex r))
      else if take 4 (c # cs) = ''true'' then map_option ((#) TTrue) (lex (drop 3 cs))
      else if take 5 (c # cs) = ''false'' then map_option ((#) TFalse) (lex (drop 4 cs))
      else if take 4 (c # cs) = ''null'' then map_option ((#) TNull) (lex (drop 3 cs))
      else None)"
  by pat_completeness auto
termination
proof -
  have str: "length (snd p) < length s" if "lex_string s = Some p" for s p
    using that
  proof (induction "length s" arbitrary: s p rule: less_induct)
    case less
    have IH: "\<And>t q. lex_string t = Some q \<Longrightarrow> length t < length s
                \<Longrightarrow> length (snd q) < length t"
      using less.hyps by blast
    show ?case
    proof (cases s)
      case Nil
      with less.prems show ?thesis by simp
    next
      case (Cons c cs)
      with less.prems show ?thesis
        by (fastforce split: if_splits list.splits option.splits dest: IH)
    qed
  qed
  have digits: "length r < length s" if "lex_digits s = Some (x, r)" for s x r
    using that
    by (cases s) (auto simp: lex_digits_def le_imp_less_Suc length_dropWhile_le split: if_splits)
  have intp: "length r < length s" if "lex_int s = Some (x, r)" for s x r
    using that
    by (auto simp: lex_int_def le_imp_less_Suc length_dropWhile_le split: list.splits if_splits)
  have frac: "length r \<le> length s" if "lex_frac s = Some (x, r)" for s x r
    using that
    by (auto simp: lex_frac_def split: list.splits if_splits dest!: digits)
  have sign: "length r \<le> length s" if "lex_sign s = (x, r)" for s x r
    using that
    by (auto simp: lex_sign_def split: list.splits if_splits)
  have expp: "length r \<le> length s" if "lex_exp s = Some (x, r)" for s x r
    using that
    by (auto simp: lex_exp_def split: list.splits if_splits prod.splits dest!: digits sign)
  have minus: "length r \<le> length s" if "lex_minus s = (x, r)" for s x r
    using that
    by (auto simp: lex_minus_def split: list.splits if_splits)
  have num: "length r < length s" if "lex_number s = Some (x, r)" for s x r
  proof -
    from that obtain m r0 i r1 f r2 e where
      "lex_minus s = (m, r0)" "lex_int r0 = Some (i, r1)"
      "lex_frac r1 = Some (f, r2)" "lex_exp r2 = Some (e, r)"
      by (auto simp: lex_number_def split: option.splits prod.splits)
    then have "length r0 \<le> length s" "length r1 < length r0"
      "length r2 \<le> length r1" "length r \<le> length r2"
      using minus intp frac expp by blast+
    then show ?thesis by simp
  qed
  show ?thesis
    apply (relation "measure length")
      apply simp_all
    subgoal for c cs x2 x y using str [of cs x2] by auto
    subgoal for c cs x2 x y using num [of "c # cs" x y] by auto
    done
qed

declare lex.simps [simp del]

text \<open>
  The parser descends with fuel. A call holding \<open>Suc n\<close> takes a token or hands \<open>n\<close> to
  the call for the next value, so twice the number of tokens is enough: the parser accepts
  a text exactly when its tokens are those of a value (\<open>JSON_parse_iff\<close> below).
\<close>

fun parse_value :: "nat \<Rightarrow> token list \<Rightarrow> (json \<times> token list) option"
  and parse_elements :: "nat \<Rightarrow> token list \<Rightarrow> (json list \<times> token list) option"
  and parse_members :: "nat \<Rightarrow> token list \<Rightarrow> ((nat list \<times> json) list \<times> token list) option"
where
  "parse_value 0 ts = None"
| "parse_value (Suc n) [] = None"
| "parse_value (Suc n) (t # ts) =
     (case t of
        TString s \<Rightarrow> Some (JStr s, ts)
      | TNumber x \<Rightarrow> Some (JNum x, ts)
      | TTrue \<Rightarrow> Some (JBool True, ts)
      | TFalse \<Rightarrow> Some (JBool False, ts)
      | TNull \<Rightarrow> Some (JNull, ts)
      | TLBrack \<Rightarrow>
          (case ts of
             TRBrack # r \<Rightarrow> Some (JArr [], r)
           | _ \<Rightarrow> map_option (\<lambda>(vs, r). (JArr vs, r)) (parse_elements n ts))
      | TLBrace \<Rightarrow>
          (case ts of
             TRBrace # r \<Rightarrow> Some (JObj [], r)
           | _ \<Rightarrow> map_option (\<lambda>(ms, r). (JObj ms, r)) (parse_members n ts))
      | _ \<Rightarrow> None)"
| "parse_elements 0 ts = None"
| "parse_elements (Suc n) ts =
     (case parse_value n ts of
        None \<Rightarrow> None
      | Some (v, r) \<Rightarrow>
          (case r of
             TComma # r' \<Rightarrow> map_option (\<lambda>(vs, r''). (v # vs, r'')) (parse_elements n r')
           | TRBrack # r' \<Rightarrow> Some ([v], r')
           | _ \<Rightarrow> None))"
| "parse_members 0 ts = None"
| "parse_members (Suc n) ts =
     (case ts of
        TString k # TColon # ts' \<Rightarrow>
          (case parse_value n ts' of
             None \<Rightarrow> None
           | Some (v, r) \<Rightarrow>
               (case r of
                  TComma # r' \<Rightarrow>
                    map_option (\<lambda>(ms, r''). ((k, v) # ms, r'')) (parse_members n r')
                | TRBrace # r' \<Rightarrow> Some ([(k, v)], r')
                | _ \<Rightarrow> None))
      | _ \<Rightarrow> None)"

datatype exn = StorageError | SyntaxError

definition JSON_parse :: "string \<Rightarrow> exn + json" where
  "JSON_parse s =
     (case lex s of
        None \<Rightarrow> Inl SyntaxError
      | Some ts \<Rightarrow>
          (case parse_value (2 * length ts) ts of
             Some (v, []) \<Rightarrow> Inr v
           | _ \<Rightarrow> Inl SyntaxError))"

text \<open>
  \<^verbatim>\<open>const parsed: Booking[] = JSON.parse(stored)\<close> checks nothing at run time. The model
  follows the component on the values that are what the annotation says: an array of
  objects with the members \<open>id\<close>, \<open>name\<close>, \<open>date\<close> and \<open>service\<close>, in the order in which
  the component writes them, each a string of code units below 256. On any other value
  \<open>as_bookings\<close> is \<open>None\<close> and the model does not follow the component further.
\<close>

definition units :: "string \<Rightarrow> nat list" where
  "units s = map of_char s"

definition latin1 :: "nat list \<Rightarrow> string option" where
  "latin1 ns = (if list_all (\<lambda>n. n < 256) ns then Some (map char_of ns) else None)"

definition as_Booking :: "json \<Rightarrow> Booking option" where
  "as_Booking v =
     (case v of
        JObj ms \<Rightarrow>
          if map fst ms = [units ''id'', units ''name'', units ''date'', units ''service''] then
            (case map snd ms of
               [JStr a, JStr b, JStr c, JStr d] \<Rightarrow>
                 (case (latin1 a, latin1 b, latin1 c, latin1 d) of
                    (Some i, Some n, Some t, Some s) \<Rightarrow>
                      Some \<lparr>b_id = i, b_name = n, b_date = t, b_service = s\<rparr>
                  | _ \<Rightarrow> None)
             | _ \<Rightarrow> None)
          else None
      | _ \<Rightarrow> None)"

definition as_bookings :: "json \<Rightarrow> Booking list option" where
  "as_bookings v = (case v of JArr vs \<Rightarrow> those (map as_Booking vs) | _ \<Rightarrow> None)"

section \<open>The component and its surroundings\<close>

text \<open>
  The state of \<^verbatim>\<open>App\<close>: one field for each \<^verbatim>\<open>useState\<close>, under the name of its variable.
\<close>

record app =
  name :: string
  selectedDate :: "jsdate option"
  service :: string
  errors :: FormErrors
  bookings :: "Booking list"
  showDatePicker :: bool
  searchQuery :: string
  isLoading :: bool
  isSyncing :: bool
  refreshing :: bool

definition initial :: app where
  "initial =
     \<lparr>name = [], selectedDate = None, service = SERVICE_OPTIONS ! 0, errors = noErrors,
      bookings = [], showDatePicker = False, searchQuery = [], isLoading = False,
      isSyncing = False, refreshing = False\<rparr>"

text \<open>
  What the component reaches outside itself: the key-value storage, which may reject a
  read or a write; the alerts shown to the user and the lines of the error console, in the
  order of their calls; the clock.
\<close>

record world =
  items :: "string \<Rightarrow> string option"
  getItem_rejects :: bool
  setItem_rejects :: bool
  alerts :: "(string \<times> string) list"
  console :: "string list"
  now :: int

definition STORAGE_KEY :: string where
  "STORAGE_KEY = ''booking_management_bookings''"

definition AsyncStorage_getItem :: "string \<Rightarrow> world \<Rightarrow> exn + string option" where
  "AsyncStorage_getItem k w = (if getItem_rejects w then Inl StorageError else Inr (items w k))"

definition AsyncStorage_setItem :: "string \<Rightarrow> string \<Rightarrow> world \<Rightarrow> exn + world" where
  "AsyncStorage_setItem k v w =
     (if setItem_rejects w then Inl StorageError else Inr (w\<lparr>items := (items w)(k \<mapsto> v)\<rparr>))"

definition Alert_alert :: "string \<Rightarrow> string \<Rightarrow> world \<Rightarrow> world" where
  "Alert_alert title msg w = w\<lparr>alerts := alerts w @ [(title, msg)]\<rparr>"

definition console_error :: "string \<Rightarrow> world \<Rightarrow> world" where
  "console_error msg w = w\<lparr>console := console w @ [msg]\<rparr>"

text \<open>
  A handler runs from a state of the component and of its surroundings to a completion
  and the state it leaves. \<open>Throw\<close> is an exception on its way out of the handler, a
  rejected promise for an \<^verbatim>\<open>async\<close> one. \<open>Unmodelled\<close> marks the one place where the
  model stops: a stored text that parses to a value that is not a \<^verbatim>\<open>Booking[]\<close> in the
  layout of \<open>as_bookings\<close>. The component puts that value in its collection; the state
  of the model cannot hold it, so the state that comes with \<open>Unmodelled\<close> is not the
  component's, and every statement about the state after a load is made where the
  completion is \<open>Normal\<close>. Each handler runs to its end before the next event; the state
  setters take effect in the order of their calls.
\<close>

datatype completion = Normal | Throw exn | Unmodelled

type_synonym proc = "app \<times> world \<Rightarrow> completion \<times> app \<times> world"

definition setState :: "(app \<Rightarrow> app) \<Rightarrow> proc" where
  "setState f = (\<lambda>(a, w). (Normal, f a, w))"

definition andThen :: "proc \<Rightarrow> proc \<Rightarrow> proc" where
  \<comment> \<open>Two statements in sequence: the second runs if the first completes normally.\<close>
  "andThen p q = (\<lambda>s. case p s of (Normal, s') \<Rightarrow> q s' | r \<Rightarrow> r)"

definition try_catch :: "proc \<Rightarrow> (exn \<Rightarrow> proc) \<Rightarrow> proc" where
  "try_catch p h = (\<lambda>s. case p s of (Throw e, s') \<Rightarrow> h e s' | r \<Rightarrow> r)"

definition try_finally :: "proc \<Rightarrow> proc \<Rightarrow> proc" where
  \<comment> \<open>The final block runs after the body however it completed, and keeps the body's
      completion unless it completes abruptly itself.\<close>
  "try_finally p f = (\<lambda>s. case p s of (c, s') \<Rightarrow> (case f s' of (Normal, s'') \<Rightarrow> (c, s'') | r \<Rightarrow> r))"

definition loadBookings_try :: proc where
  "loadBookings_try = (\<lambda>(a, w).
     case AsyncStorage_getItem STORAGE_KEY w of
       Inl e \<Rightarrow> (Throw e, a, w)
     | Inr stored \<Rightarrow>
         (case stored of
            None \<Rightarrow> (Normal, a\<lparr>bookings := []\<rparr>, w)
          | Some text \<Rightarrow>
              if text = [] then (Normal, a\<lparr>bookings := []\<rparr>, w)
              else
                (case JSON_parse text of
                   Inl e \<Rightarrow> (Throw e, a, w)
                 | Inr v \<Rightarrow>
                     (case as_bookings v of
                        None \<Rightarrow> (Unmodelled, a, w)
                      | Some parsed \<Rightarrow> (Normal, a\<lparr>bookings := parsed\<rparr>, w)))))"

definition loadBookings_catch :: "exn \<Rightarrow> proc" where
  "loadBookings_catch error = (\<lambda>(a, w).
     (Normal, a,
      Alert_alert ''Error'' ''Could not load bookings. Please try again.''
        (console_error ''Failed to load bookings'' w)))"

definition loadBookings :: "bool \<Rightarrow> proc" where
  "loadBookings showLoading =
     andThen
       (setState (\<lambda>a. if showLoading then a\<lparr>isLoading := True\<rparr> else a\<lparr>refreshing := True\<rparr>))
       (try_finally
          (try_catch loadBookings_try loadBookings_catch)
          (setState
             (\<lambda>a. if showLoading then a\<lparr>isLoading := False\<rparr> else a\<lparr>refreshing := False\<rparr>)))"

definition persistBookings_try :: "Booking list \<Rightarrow> proc" where
  "persistBookings_try bs =
     andThen
       (setState (\<lambda>a. a\<lparr>isSyncing := True\<rparr>))
       (\<lambda>(a, w).
          case AsyncStorage_setItem STORAGE_KEY (JSON_stringify bs) w of
            Inl e \<Rightarrow> (Throw e, a, w)
          | Inr w' \<Rightarrow> (Normal, a, w'))"

definition persistBookings_catch :: "exn \<Rightarrow> proc" where
  "persistBookings_catch error = (\<lambda>(a, w).
     (Normal, a,
      Alert_alert ''Error'' ''Could not save bookings. Please try again.''
        (console_error ''Failed to save bookings'' w)))"

definition persistBookings :: "Booking list \<Rightarrow> proc" where
  "persistBookings bs =
     try_finally
       (try_catch (persistBookings_try bs) persistBookings_catch)
       (setState (\<lambda>a. a\<lparr>isSyncing := False\<rparr>))"

definition form_input :: "app \<Rightarrow> schema_input" where
  \<comment> \<open>\<^verbatim>\<open>{ name, date: selectedDate ?? undefined, service }\<close>\<close>
  "form_input a = \<lparr>in_name = name a, in_date = selectedDate a, in_service = Some (service a)\<rparr>"

definition newBooking :: "world \<Rightarrow> schema_output \<Rightarrow> Booking" where
  "newBooking w d =
     \<lparr>b_id = Number_toString (now w), b_name = trim (out_name d),
      b_date = toISOString (out_date d), b_service = out_service d\<rparr>"

definition resetForm :: "app \<Rightarrow> app" where
  "resetForm a =
     a\<lparr>name := [], selectedDate := None, service := SERVICE_OPTIONS ! 0, errors := noErrors\<rparr>"

definition handleSubmit :: proc where
  "handleSubmit = (\<lambda>(a, w).
     case safeParse (form_input a) of
       Inl issues \<Rightarrow> setState (\<lambda>a. a\<lparr>errors := fieldErrors issues\<rparr>) (a, w)
     | Inr d \<Rightarrow>
         (let updatedBookings = newBooking w d # bookings a
          in andThen
               (setState (\<lambda>a. a\<lparr>bookings := updatedBookings\<rparr>))
               (andThen (persistBookings updatedBookings) (setState resetForm))
               (a, w)))"

definition handleDelete :: "string \<Rightarrow> proc" where
  "handleDelete i = (\<lambda>(a, w).
     let filtered = filter (\<lambda>booking. b_id booking \<noteq> i) (bookings a)
     in andThen (setState (\<lambda>a. a\<lparr>bookings := filtered\<rparr>)) (persistBookings filtered) (a, w))"

definition matchesQuery :: "string \<Rightarrow> Booking \<Rightarrow> bool" where
  \<comment> \<open>The callback of the filter that computes \<^verbatim>\<open>filteredBookings\<close>.\<close>
  "matchesQuery searchQuery' booking =
     (if trim searchQuery' = [] then True
      else
        (let q = toLowerCase searchQuery'
         in str_includes (toLowerCase (b_name booking)) q
            \<or> str_includes (toLowerCase (b_service booking)) q))"

definition filteredBookings :: "app \<Rightarrow> Booking list" where
  "filteredBookings a = filter (matchesQuery (searchQuery a)) (bookings a)"

section \<open>Notions of the statements\<close>

text \<open>
  The tokens of a value, for the statement that the parser accepts every value's tokens;
  the value that \<^verbatim>\<open>JSON.stringify\<close> writes for a collection; and the words of the
  specification as predicates.
\<close>

fun toks :: "json \<Rightarrow> token list"
  and toks_elements :: "json list \<Rightarrow> token list"
  and toks_members :: "(nat list \<times> json) list \<Rightarrow> token list"
where
  "toks JNull = [TNull]"
| "toks (JBool b) = [if b then TTrue else TFalse]"
| "toks (JNum x) = [TNumber x]"
| "toks (JStr s) = [TString s]"
| "toks (JArr vs) = TLBrack # (if vs = [] then [TRBrack] else toks_elements vs)"
| "toks (JObj ms) = TLBrace # (if ms = [] then [TRBrace] else toks_members ms)"
| "toks_elements [] = []"
| "toks_elements (v # vs) = toks v @ (if vs = [] then [TRBrack] else TComma # toks_elements vs)"
| "toks_members [] = []"
| "toks_members ((k, v) # ms) =
     TString k # TColon # toks v @ (if ms = [] then [TRBrace] else TComma # toks_members ms)"

definition toJSON_Booking :: "Booking \<Rightarrow> json" where
  "toJSON_Booking b =
     JObj [(units ''id'', JStr (units (b_id b))), (units ''name'', JStr (units (b_name b))),
           (units ''date'', JStr (units (b_date b))),
           (units ''service'', JStr (units (b_service b)))]"

definition toJSON :: "Booking list \<Rightarrow> json" where
  "toJSON bs = JArr (map toJSON_Booking bs)"

definition outcome :: "completion \<times> app \<times> world \<Rightarrow> completion" where
  "outcome r = fst r"

definition app_after :: "completion \<times> app \<times> world \<Rightarrow> app" where
  "app_after r = fst (snd r)"

definition world_after :: "completion \<times> app \<times> world \<Rightarrow> world" where
  "world_after r = snd (snd r)"

definition field_error :: "string \<Rightarrow> schema_input \<Rightarrow> bool" where
  "field_error f i = (case safeParse i of Inl is \<Rightarrow> f \<in> set (map path is) | Inr _ \<Rightarrow> False)"

definition blank :: "string \<Rightarrow> bool" where
  "blank s = list_all isWhiteSpace s"

definition valid_booking :: "Booking \<Rightarrow> bool" where
  "valid_booking b = (trim (b_name b) \<noteq> [] \<and> b_service b \<in> set SERVICE_OPTIONS)"

definition store_invariant :: "app \<Rightarrow> bool" where
  "store_invariant a = list_all valid_booking (bookings a)"

definition contains_ci :: "string \<Rightarrow> string \<Rightarrow> bool" where
  "contains_ci s q = sublist (toLowerCase q) (toLowerCase s)"

definition search_spec :: "string \<Rightarrow> Booking list \<Rightarrow> Booking list" where
  "search_spec q bs = filter (\<lambda>b. contains_ci (b_name b) q \<or> contains_ci (b_service b) q) bs"

definition stored_bookings :: "world \<Rightarrow> Booking list option" where
  "stored_bookings w =
     (case items w STORAGE_KEY of
        None \<Rightarrow> None
      | Some t \<Rightarrow> (case JSON_parse t of Inl _ \<Rightarrow> None | Inr v \<Rightarrow> as_bookings v))"

text \<open>
  The stored text, if there is one and it parses, is a collection of bookings that satisfy
  the two constraints. A text that parses to any other value does not count.
\<close>

definition storage_valid :: "world \<Rightarrow> bool" where
  "storage_valid w =
     (case items w STORAGE_KEY of
        None \<Rightarrow> True
      | Some t \<Rightarrow>
          t = [] \<or>
          (case JSON_parse t of
             Inl _ \<Rightarrow> True
           | Inr v \<Rightarrow>
               (case as_bookings v of
                  None \<Rightarrow> False
                | Some bs \<Rightarrow> list_all valid_booking bs)))"

definition load_alert :: "string \<times> string" where
  "load_alert = (''Error'', ''Could not load bookings. Please try again.'')"

definition save_alert :: "string \<times> string" where
  "save_alert = (''Error'', ''Could not save bookings. Please try again.'')"

section \<open>Facts about the strings, the parser and the handlers\<close>

lemma toks_head: "\<exists>t ts. toks v = t # ts \<and> t \<noteq> TRBrack \<and> t \<noteq> TRBrace"
  by (cases v) auto

lemma parse_toks:
  "(2 * length (toks v) \<le> n \<longrightarrow> parse_value n (toks v @ r) = Some (v, r))"
  "(vs \<noteq> [] \<longrightarrow> 2 * length (toks_elements vs) \<le> Suc n \<longrightarrow> parse_elements n (toks_elements vs @ r) = Some (vs, r))"
  "(ms \<noteq> [] \<longrightarrow> 2 * length (toks_members ms) \<le> Suc n \<longrightarrow> parse_members n (toks_members ms @ r) = Some (ms, r))"
proof (induction v and vs and ms arbitrary: n r and n r and n r rule: toks_toks_elements_toks_members.induct)
  case (5 vs)
  show ?case
  proof (cases "vs = []")
    case True
    then show ?thesis by (cases n) auto
  next
    case False
    then obtain v vs' where vs: "vs = v # vs'" by (cases vs) auto
    obtain t ts where t: "toks v = t # ts" "t \<noteq> TRBrack" using toks_head by blast
    show ?thesis
    proof
      assume le: "2 * length (toks (JArr vs)) \<le> n"
      then obtain m where n: "n = Suc m" by (cases n) auto
      with le False have "2 * length (toks_elements vs) \<le> Suc m" by simp
      with 5 [of m r] False have "parse_elements m (toks_elements vs @ r) = Some (vs, r)" by simp
      moreover have "\<exists>t' ts'. toks_elements vs @ r = t' # ts' \<and> t' \<noteq> TRBrack"
        using vs t by simp
      ultimately show "parse_value n (toks (JArr vs) @ r) = Some (JArr vs, r)"
        using False n by (auto split: list.splits token.splits)
    qed
  qed
next
  case (6 ms)
  show ?case
  proof (cases "ms = []")
    case True
    then show ?thesis by (cases n) auto
  next
    case False
    then obtain k v ms' where ms: "ms = (k, v) # ms'" by (cases ms) auto
    show ?thesis
    proof
      assume le: "2 * length (toks (JObj ms)) \<le> n"
      then obtain m where n: "n = Suc m" by (cases n) auto
      with le False have "2 * length (toks_members ms) \<le> Suc m" by simp
      with 6 [of m r] False have "parse_members m (toks_members ms @ r) = Some (ms, r)" by simp
      moreover have "\<exists>t' ts'. toks_members ms @ r = t' # ts' \<and> t' \<noteq> TRBrace"
        using ms by simp
      ultimately show "parse_value n (toks (JObj ms) @ r) = Some (JObj ms, r)"
        using False n by (auto split: list.splits token.splits)
    qed
  qed
next
  case (8 v vs)
  show ?case
  proof (intro impI)
    assume le: "2 * length (toks_elements (v # vs)) \<le> Suc n"
    then obtain m where n: "n = Suc m"
      using toks_head [of v] by (cases n) (auto split: if_splits)
    from le n have "2 * length (toks v) \<le> m" by (auto split: if_splits)
    then have v: "\<And>r. parse_value m (toks v @ r) = Some (v, r)" using 8(1) by blast
    show "parse_elements n (toks_elements (v # vs) @ r) = Some (v # vs, r)"
    proof (cases "vs = []")
      case True
      then show ?thesis using v n by simp
    next
      case False
      from le n False have "2 * length (toks_elements vs) \<le> Suc m" by simp
      with 8(2) [of m r] False have "parse_elements m (toks_elements vs @ r) = Some (vs, r)" by blast
      then show ?thesis using v n False by simp
    qed
  qed
next
  case (10 k v ms)
  show ?case
  proof (intro impI)
    assume le: "2 * length (toks_members ((k, v) # ms)) \<le> Suc n"
    then obtain m where n: "n = Suc m" by (cases n) auto
    from le n have "2 * length (toks v) \<le> m" by (auto split: if_splits)
    then have v: "\<And>r. parse_value m (toks v @ r) = Some (v, r)" using 10(1) by blast
    show "parse_members n (toks_members ((k, v) # ms) @ r) = Some ((k, v) # ms, r)"
    proof (cases "ms = []")
      case True
      then show ?thesis using v n by simp
    next
      case False
      from le n False have "2 * length (toks_members ms) \<le> Suc m" by simp
      with 10(2) [of m r] False have "parse_members m (toks_members ms @ r) = Some (ms, r)" by blast
      then show ?thesis using v n False by simp
    qed
  qed
qed (case_tac [!] n, auto)

lemma parse_sound_fuel:
  "(\<forall>ts v r. parse_value n ts = Some (v, r) \<longrightarrow> ts = toks v @ r)
   \<and> (\<forall>ts vs r. parse_elements n ts = Some (vs, r) \<longrightarrow> vs \<noteq> [] \<and> ts = toks_elements vs @ r)
   \<and> (\<forall>ts ms r. parse_members n ts = Some (ms, r) \<longrightarrow> ms \<noteq> [] \<and> ts = toks_members ms @ r)"
proof (induction n)
  case 0
  show ?case by simp
next
  case (Suc n)
  then have V: "\<And>ts v r. parse_value n ts = Some (v, r) \<Longrightarrow> ts = toks v @ r"
    and E: "\<And>ts vs r. parse_elements n ts = Some (vs, r)
              \<Longrightarrow> vs \<noteq> [] \<and> ts = toks_elements vs @ r"
    and M: "\<And>ts ms r. parse_members n ts = Some (ms, r)
              \<Longrightarrow> ms \<noteq> [] \<and> ts = toks_members ms @ r"
    by blast+
  have 1: "ts = toks v @ r" if "parse_value (Suc n) ts = Some (v, r)" for ts v r
  proof (cases ts)
    case Nil
    with that show ?thesis by simp
  next
    case (Cons t ts')
    with that show ?thesis
      by (cases t; cases ts'; (cases "hd ts'")?) (auto dest!: E M)
  qed
  have 2: "vs \<noteq> [] \<and> ts = toks_elements vs @ r"
    if "parse_elements (Suc n) ts = Some (vs, r)" for ts vs r
  proof -
    from that obtain v r1 where v: "parse_value n ts = Some (v, r1)"
      by (auto split: option.splits)
    then have ts: "ts = toks v @ r1" by (rule V)
    from that v show ?thesis
      unfolding ts
      by (cases r1; (cases "hd r1")?) (auto dest!: E)
  qed
  have 3: "ms \<noteq> [] \<and> ts = toks_members ms @ r"
    if "parse_members (Suc n) ts = Some (ms, r)" for ts ms r
  proof -
    from that obtain k ts' where k: "ts = TString k # TColon # ts'"
      by (auto split: list.splits token.splits)
    with that obtain v r1 where v: "parse_value n ts' = Some (v, r1)"
      by (auto split: option.splits)
    then have ts: "ts' = toks v @ r1" by (rule V)
    from that v k show ?thesis
      by (cases r1; (cases "hd r1")?) (auto dest!: M V)
  qed
  from 1 2 3 show ?case by blast
qed

lemma JSON_parse_iff: "JSON_parse s = Inr v \<longleftrightarrow> lex s = Some (toks v)"
proof
  assume "JSON_parse s = Inr v"
  then obtain ts where ts: "lex s = Some ts" "parse_value (2 * length ts) ts = Some (v, [])"
    by (auto simp: JSON_parse_def split: option.splits list.splits)
  then show "lex s = Some (toks v)" using parse_sound_fuel [of "2 * length ts"] by fastforce
next
  assume "lex s = Some (toks v)"
  then show "JSON_parse s = Inr v"
    using parse_toks(1) [of v "2 * length (toks v)" "[]"] by (simp add: JSON_parse_def)
qed

lemma hexValue_hexDigit: "d < 16 \<Longrightarrow> hexValue (hexDigit d) = Some d"
proof -
  have "\<forall>d \<in> set [0..<16]. hexValue (hexDigit d) = Some d"
    by code_simp
  then show "d < 16 \<Longrightarrow> hexValue (hexDigit d) = Some d" by simp
qed

lemma hex4_low: "n < 32 \<Longrightarrow> hex4 (CHR ''0'') (CHR ''0'') (hexDigit (n div 16)) (hexDigit (n mod 16)) = Some n"
proof -
  assume n: "n < 32"
  then have "n div 16 < 16" "n mod 16 < 16" by simp_all
  then have "hexValue (hexDigit (n div 16)) = Some (n div 16)"
    "hexValue (hexDigit (n mod 16)) = Some (n mod 16)"
    by (simp_all add: hexValue_hexDigit)
  moreover have "hexValue (CHR ''0'') = Some 0" by (simp add: hexValue_def)
  ultimately show ?thesis by (simp add: hex4_def)
qed

lemma lex_string_quoteChar:
  "lex_string (quoteChar c @ rest) = map_option (\<lambda>(s, t). (of_char c # s, t)) (lex_string rest)"
proof -
  consider "c \<in> {CHR 0x08, CHR 0x09, CHR 0x0A, CHR 0x0C, CHR 0x0D, CHR 0x22, CHR 0x5C}"
    | "c \<notin> {CHR 0x08, CHR 0x09, CHR 0x0A, CHR 0x0C, CHR 0x0D, CHR 0x22, CHR 0x5C}" "(of_char c :: nat) < 32"
    | "c \<notin> {CHR 0x08, CHR 0x09, CHR 0x0A, CHR 0x0C, CHR 0x0D, CHR 0x22, CHR 0x5C}" "\<not> (of_char c :: nat) < 32"
    by blast
  then show ?thesis
  proof cases
    case 1
    then show ?thesis by (auto simp: quoteChar_def unescape_def)
  next
    case 2
    then show ?thesis by (simp add: quoteChar_def hex4_low)
  next
    case 3
    then show ?thesis by (simp add: quoteChar_def)
  qed
qed

lemma lex_string_quoteBody:
  "lex_string (quoteBody s @ CHR 0x22 # rest) = Some (units s, rest)"
  by (induction s) (simp_all add: quoteBody_def units_def lex_string_quoteChar del: lex_string.simps, simp)

lemma lex_quoted:
  "lex (QuoteJSONString s @ rest) = map_option ((#) (TString (units s))) (lex rest)"
  by (simp add: QuoteJSONString_def lex.simps isJSONWhiteSpace_def lex_string_quoteBody)

lemma lex_punct:
  "lex (CHR ''{'' # rest) = map_option ((#) TLBrace) (lex rest)"
  "lex (CHR ''}'' # rest) = map_option ((#) TRBrace) (lex rest)"
  "lex (CHR ''['' # rest) = map_option ((#) TLBrack) (lex rest)"
  "lex (CHR '']'' # rest) = map_option ((#) TRBrack) (lex rest)"
  "lex (CHR '':'' # rest) = map_option ((#) TColon) (lex rest)"
  "lex (CHR '','' # rest) = map_option ((#) TComma) (lex rest)"
  by (simp_all add: lex.simps isJSONWhiteSpace_def)

lemma lex_Booking:
  "lex (stringify_Booking b @ rest)
   = map_option (\<lambda>ts. toks (toJSON_Booking b) @ ts) (lex rest)"
  by (simp add: stringify_Booking_def toJSON_Booking_def lex_quoted lex_punct
      option.map_comp comp_def)

lemma lex_elements:
  "bs \<noteq> [] \<Longrightarrow>
   lex (stringify_elements bs @ CHR '']'' # rest)
   = map_option (\<lambda>ts. toks_elements (map toJSON_Booking bs) @ ts) (lex rest)"
proof (induction bs rule: stringify_elements.induct)
  case 1
  then show ?case by simp
next
  case (2 b)
  show ?case
    by (simp add: lex_Booking lex_punct toJSON_Booking_def option.map_comp comp_def)
next
  case (3 b b' bs)
  then show ?case
    by (simp add: lex_Booking lex_punct toJSON_Booking_def option.map_comp comp_def)
qed

lemma lex_stringify: "lex (JSON_stringify bs) = Some (toks (toJSON bs))"
proof (cases "bs = []")
  case True
  then show ?thesis by (simp add: JSON_stringify_def toJSON_def lex_punct lex.simps(1))
next
  case False
  then show ?thesis
    using lex_elements [of bs "[]"]
    by (simp add: JSON_stringify_def toJSON_def lex_punct lex.simps(1) option.map_comp comp_def)
qed

lemma JSON_parse_stringify: "JSON_parse (JSON_stringify bs) = Inr (toJSON bs)"
  using parse_toks(1) [of "toJSON bs" "2 * length (toks (toJSON bs))" "[]"]
  by (simp add: JSON_parse_def lex_stringify)

lemma of_char_below_256: "(of_char c :: nat) < 256"
  using of_char_mod_256 [of c, where ?'a = nat] by (metis mod_less_divisor zero_less_numeral)

lemma latin1_units: "latin1 (units s) = Some s"
proof -
  have "list_all (\<lambda>n::nat. n < 256) (map of_char s)"
    by (simp add: list_all_iff of_char_below_256)
  moreover have "map char_of (map (of_char :: char \<Rightarrow> nat) s) = s"
    by (simp add: comp_def)
  ultimately show ?thesis by (simp add: latin1_def units_def)
qed

lemma as_Booking_toJSON: "as_Booking (toJSON_Booking b) = Some b"
  by (simp add: as_Booking_def toJSON_Booking_def latin1_units)

lemma as_bookings_toJSON: "as_bookings (toJSON bs) = Some bs"
  by (induction bs) (simp_all add: as_bookings_def toJSON_def as_Booking_toJSON)

lemma trim_Nil_iff: "trim s = [] \<longleftrightarrow> blank s"
proof -
  have last: "dropWhile isWhiteSpace (rev (dropWhile isWhiteSpace s)) = []
      \<longleftrightarrow> dropWhile isWhiteSpace s = []"
  proof (cases "dropWhile isWhiteSpace s")
    case Nil
    show ?thesis unfolding Nil by simp
  next
    case (Cons c cs)
    then have "\<not> isWhiteSpace c" using hd_dropWhile [of isWhiteSpace s] by simp
    then show ?thesis unfolding Cons by (simp add: dropWhile_eq_Nil_conv)
  qed
  have "trim s = [] \<longleftrightarrow> dropWhile isWhiteSpace (rev (dropWhile isWhiteSpace s)) = []"
    by (simp add: trim_def)
  also have "\<dots> \<longleftrightarrow> dropWhile isWhiteSpace s = []" by (rule last)
  also have "\<dots> \<longleftrightarrow> blank s"
    by (simp only: dropWhile_eq_Nil_conv blank_def list_all_iff)
  finally show ?thesis .
qed

lemma str_includes_sublist: "str_includes s q \<longleftrightarrow> sublist q s"
  by (induction s) (auto simp: sublist_Cons_right)

lemma persistBookings_run:
  "persistBookings bs (a, w) =
     (Normal, a\<lparr>isSyncing := False\<rparr>,
      if setItem_rejects w
      then Alert_alert ''Error'' ''Could not save bookings. Please try again.''
             (console_error ''Failed to save bookings'' w)
      else w\<lparr>items := (items w)(STORAGE_KEY \<mapsto> JSON_stringify bs)\<rparr>)"
  by (simp add: persistBookings_def persistBookings_try_def persistBookings_catch_def
      try_finally_def try_catch_def andThen_def setState_def AsyncStorage_setItem_def)

lemma handleSubmit_invalid:
  "safeParse (form_input a) = Inl is \<Longrightarrow>
   handleSubmit (a, w) = (Normal, a\<lparr>errors := fieldErrors is\<rparr>, w)"
  by (simp add: handleSubmit_def setState_def)

lemma handleSubmit_valid:
  "safeParse (form_input a) = Inr d \<Longrightarrow>
   handleSubmit (a, w) =
     (Normal, resetForm (a\<lparr>bookings := newBooking w d # bookings a, isSyncing := False\<rparr>),
      if setItem_rejects w
      then Alert_alert ''Error'' ''Could not save bookings. Please try again.''
             (console_error ''Failed to save bookings'' w)
      else w\<lparr>items := (items w)(STORAGE_KEY \<mapsto> JSON_stringify (newBooking w d # bookings a))\<rparr>)"
  by (simp add: handleSubmit_def andThen_def setState_def persistBookings_run Let_def)

lemma handleDelete_run:
  "handleDelete i (a, w) =
     (Normal, a\<lparr>bookings := filter (\<lambda>b. b_id b \<noteq> i) (bookings a), isSyncing := False\<rparr>,
      if setItem_rejects w
      then Alert_alert ''Error'' ''Could not save bookings. Please try again.''
             (console_error ''Failed to save bookings'' w)
      else w\<lparr>items := (items w)(STORAGE_KEY \<mapsto>
             JSON_stringify (filter (\<lambda>b. b_id b \<noteq> i) (bookings a)))\<rparr>)"
  by (simp add: handleDelete_def andThen_def setState_def persistBookings_run Let_def)

lemma loadBookings_rejected:
  "getItem_rejects w \<Longrightarrow>
   loadBookings sl (a, w) =
     (Normal, (if sl then a\<lparr>isLoading := False\<rparr> else a\<lparr>refreshing := False\<rparr>),
      Alert_alert ''Error'' ''Could not load bookings. Please try again.''
        (console_error ''Failed to load bookings'' w))"
  by (simp add: loadBookings_def loadBookings_try_def loadBookings_catch_def
      try_finally_def try_catch_def andThen_def setState_def AsyncStorage_getItem_def)

lemma loadBookings_absent:
  "\<not> getItem_rejects w \<Longrightarrow> items w STORAGE_KEY = None \<or> items w STORAGE_KEY = Some [] \<Longrightarrow>
   loadBookings sl (a, w) =
     (Normal, (if sl then a\<lparr>bookings := [], isLoading := False\<rparr>
               else a\<lparr>bookings := [], refreshing := False\<rparr>), w)"
  by (auto simp: loadBookings_def loadBookings_try_def loadBookings_catch_def
      try_finally_def try_catch_def andThen_def setState_def AsyncStorage_getItem_def)

lemma loadBookings_syntax:
  "\<not> getItem_rejects w \<Longrightarrow> items w STORAGE_KEY = Some t \<Longrightarrow> t \<noteq> [] \<Longrightarrow>
   JSON_parse t = Inl e \<Longrightarrow>
   loadBookings sl (a, w) =
     (Normal, (if sl then a\<lparr>isLoading := False\<rparr> else a\<lparr>refreshing := False\<rparr>),
      Alert_alert ''Error'' ''Could not load bookings. Please try again.''
        (console_error ''Failed to load bookings'' w))"
  by (simp add: loadBookings_def loadBookings_try_def loadBookings_catch_def
      try_finally_def try_catch_def andThen_def setState_def AsyncStorage_getItem_def)

lemma loadBookings_parsed:
  "\<not> getItem_rejects w \<Longrightarrow> items w STORAGE_KEY = Some t \<Longrightarrow> t \<noteq> [] \<Longrightarrow>
   JSON_parse t = Inr v \<Longrightarrow> as_bookings v = Some bs \<Longrightarrow>
   loadBookings sl (a, w) =
     (Normal, (if sl then a\<lparr>bookings := bs, isLoading := False\<rparr>
               else a\<lparr>bookings := bs, refreshing := False\<rparr>), w)"
  by (simp add: loadBookings_def loadBookings_try_def loadBookings_catch_def
      try_finally_def try_catch_def andThen_def setState_def AsyncStorage_getItem_def)

lemma loadBookings_untyped:
  "\<not> getItem_rejects w \<Longrightarrow> items w STORAGE_KEY = Some t \<Longrightarrow> t \<noteq> [] \<Longrightarrow>
   JSON_parse t = Inr v \<Longrightarrow> as_bookings v = None \<Longrightarrow>
   loadBookings sl (a, w) =
     (Unmodelled, (if sl then a\<lparr>isLoading := False\<rparr> else a\<lparr>refreshing := False\<rparr>), w)"
  by (simp add: loadBookings_def loadBookings_try_def loadBookings_catch_def
      try_finally_def try_catch_def andThen_def setState_def AsyncStorage_getItem_def)

lemma loadBookings_never_throws: "outcome (loadBookings sl (a, w)) \<noteq> Throw e"
  by (simp add: loadBookings_def loadBookings_try_def loadBookings_catch_def outcome_def
      try_finally_def try_catch_def andThen_def setState_def AsyncStorage_getItem_def
      split: option.splits sum.splits)

lemma dropWhile_id: "xs = [] \<or> \<not> P (hd xs) \<Longrightarrow> dropWhile P xs = xs"
  by (cases xs) auto

lemma trim_ends:
  "trim s = [] \<or> (\<not> isWhiteSpace (hd (trim s)) \<and> \<not> isWhiteSpace (last (trim s)))"
proof (cases "dropWhile isWhiteSpace s")
  case Nil
  then show ?thesis by (simp add: trim_def del: dropWhile_eq_Nil_conv)
next
  case (Cons c cs)
  define u where "u = dropWhile isWhiteSpace s"
  define v where "v = dropWhile isWhiteSpace (rev u)"
  have c: "\<not> isWhiteSpace c" using Cons hd_dropWhile [of isWhiteSpace s] by simp
  have u: "u = c # cs" using Cons by (simp add: u_def)
  have "c \<in> set (rev u)" using u by simp
  then have v: "v \<noteq> []" using c by (auto simp: v_def dropWhile_eq_Nil_conv)
  then have hv: "\<not> isWhiteSpace (hd v)"
    unfolding v_def using hd_dropWhile [of isWhiteSpace "rev u"] by blast
  obtain ws where ws: "rev u = ws @ v"
    unfolding v_def using takeWhile_dropWhile_id [of isWhiteSpace "rev u"] by metis
  then have "last v = last (rev u)" using v by simp
  then have lv: "last v = c" using u by simp
  have t: "trim s = rev v" by (simp add: trim_def u_def v_def)
  have "hd (rev v) = last v" "last (rev v) = hd v" using v by (simp_all add: hd_rev last_rev)
  then show ?thesis using t v hv lv c by simp
qed

lemma trim_idem: "trim (trim s) = trim s"
proof (cases "trim s = []")
  case True
  show ?thesis unfolding True by (simp add: trim_def)
next
  case False
  with trim_ends [of s] have e: "\<not> isWhiteSpace (hd (trim s))" "\<not> isWhiteSpace (last (trim s))"
    by simp_all
  have 1: "dropWhile isWhiteSpace (trim s) = trim s"
    using e(1) by (simp add: dropWhile_id)
  have "hd (rev (trim s)) = last (trim s)" using False by (simp add: hd_rev)
  then have 2: "dropWhile isWhiteSpace (rev (trim s)) = rev (trim s)"
    using e(2) by (simp add: dropWhile_id)
  show ?thesis
    by (subst (1) trim_def) (simp only: 1 2 rev_rev_ident)
qed

lemma JSON_stringify_not_Nil: "JSON_stringify bs \<noteq> []"
  by (simp add: JSON_stringify_def)

lemma stored_after_write:
  "items w STORAGE_KEY = Some (JSON_stringify bs) \<Longrightarrow> stored_bookings w = Some bs"
  by (simp add: stored_bookings_def JSON_parse_stringify as_bookings_toJSON)

lemma load_after_write:
  "\<not> getItem_rejects w \<Longrightarrow> items w STORAGE_KEY = Some (JSON_stringify bs) \<Longrightarrow>
   outcome (loadBookings sl (a, w)) = Normal
   \<and> bookings (app_after (loadBookings sl (a, w))) = bs"
  using loadBookings_parsed [of w "JSON_stringify bs" "toJSON bs" bs sl a]
  by (simp add: JSON_stringify_not_Nil JSON_parse_stringify as_bookings_toJSON
      outcome_def app_after_def)

lemma storage_valid_same_item:
  "items w' STORAGE_KEY = items w STORAGE_KEY \<Longrightarrow> storage_valid w' = storage_valid w"
  by (simp add: storage_valid_def)

lemma storage_valid_written:
  "list_all valid_booking bs \<Longrightarrow> items w STORAGE_KEY = Some (JSON_stringify bs) \<Longrightarrow>
   storage_valid w"
  by (simp add: storage_valid_def JSON_parse_stringify as_bookings_toJSON)

lemma persisted_storage_valid:
  "list_all valid_booking bs \<Longrightarrow> storage_valid w \<Longrightarrow>
   storage_valid
     (if setItem_rejects w
      then Alert_alert ''Error'' ''Could not save bookings. Please try again.''
             (console_error ''Failed to save bookings'' w)
      else w\<lparr>items := (items w)(STORAGE_KEY \<mapsto> JSON_stringify bs)\<rparr>)"
proof (cases "setItem_rejects w")
  case True
  assume "storage_valid w"
  then show ?thesis
    using True
      storage_valid_same_item [of "Alert_alert ''Error''
        ''Could not save bookings. Please try again.''
        (console_error ''Failed to save bookings'' w)" w]
    by (simp add: Alert_alert_def console_error_def)
next
  case False
  assume "list_all valid_booking bs"
  then show ?thesis
    using False
      storage_valid_written [of bs "w\<lparr>items := (items w)(STORAGE_KEY \<mapsto> JSON_stringify bs)\<rparr>"]
    by simp
qed

lemma loadBookings_storage_valid:
  "storage_valid w \<Longrightarrow>
   outcome (loadBookings sl (a, w)) = Normal
   \<and> storage_valid (world_after (loadBookings sl (a, w)))
   \<and> (bookings (app_after (loadBookings sl (a, w))) = bookings a
      \<or> list_all valid_booking (bookings (app_after (loadBookings sl (a, w)))))"
proof -
  assume st: "storage_valid w"
  have alerted: "storage_valid (Alert_alert ''Error'' ''Could not load bookings. Please try again.''
        (console_error ''Failed to load bookings'' w))"
    using st
      storage_valid_same_item [of "Alert_alert ''Error''
        ''Could not load bookings. Please try again.''
        (console_error ''Failed to load bookings'' w)" w]
    by (simp add: Alert_alert_def console_error_def)
  show ?thesis
  proof (cases "getItem_rejects w")
    case True
    then show ?thesis
      using alerted
      by (simp add: loadBookings_rejected outcome_def app_after_def world_after_def)
  next
    case False
    note ok = this
    show ?thesis
    proof (cases "items w STORAGE_KEY = None \<or> items w STORAGE_KEY = Some []")
      case True
      then show ?thesis
        using ok st
        by (simp add: loadBookings_absent outcome_def app_after_def world_after_def)
    next
      case False
      then obtain t where t: "items w STORAGE_KEY = Some t" "t \<noteq> []" by auto
      show ?thesis
      proof (cases "JSON_parse t")
        case (Inl e)
        then show ?thesis
          using ok t alerted
          by (simp add: loadBookings_syntax [of w t e] outcome_def app_after_def
              world_after_def)
      next
        case (Inr v)
        with st t obtain bs where bs: "as_bookings v = Some bs" "list_all valid_booking bs"
          by (auto simp: storage_valid_def split: option.splits)
        then show ?thesis
          using ok t Inr st
          by (simp add: loadBookings_parsed [of w t v bs] outcome_def app_after_def
              world_after_def)
      qed
    qed
  qed
qed

lemma storage_valid_other_layout:
  \<open>\<not> storage_valid
        \<lparr>items = [STORAGE_KEY \<mapsto>
           ''[{"name":"","id":"1","date":"2024-05-01T00:00:00.000Z","service":"Haircut"}]''],
         getItem_rejects = False, setItem_rejects = False,
         alerts = [], console = [], now = 0\<rparr>\<close>
  by code_simp

section \<open>Search\<close>

text \<open>
  C9. For every collection, a search query made of white space only is treated as the
  empty query: the filter returns the whole collection in store order, also when the
  query is not the empty string.
\<close>

theorem C9_blank_query_returns_all:
  "blank (searchQuery a) \<Longrightarrow> filteredBookings a = bookings a"
  by (simp add: filteredBookings_def matchesQuery_def trim_Nil_iff)

theorem C9_blank_query_returns_all_witness:
  "blank ''   '' \<and> ''   '' \<noteq> []
   \<and> filteredBookings
        (initial\<lparr>searchQuery := ''   '',
           bookings := [\<lparr>b_id = ''1'', b_name = ''Ann'', b_date = ''2024-05-01T00:00:00.000Z'',
                        b_service = ''Consultation''\<rparr>]\<rparr>)
       = [\<lparr>b_id = ''1'', b_name = ''Ann'', b_date = ''2024-05-01T00:00:00.000Z'',
            b_service = ''Consultation''\<rparr>]"
proof -
  have b: "blank ''   ''" by (simp add: blank_def isWhiteSpace_def)
  show ?thesis
    using b C9_blank_query_returns_all
      [of "initial\<lparr>searchQuery := ''   '',
           bookings := [\<lparr>b_id = ''1'', b_name = ''Ann'', b_date = ''2024-05-01T00:00:00.000Z'',
                        b_service = ''Consultation''\<rparr>]\<rparr>"]
    by simp
qed

text \<open>
  C5, as stated: for every collection and query the filter returns exactly the records
  whose name or service contains the query as a case-insensitive substring, in store order,
  and the whole collection for the empty query. It fails for a query of white space that
  is not empty: the guard \<^verbatim>\<open>!searchQuery.trim()\<close> lets every record through, also one
  that holds no white space.
\<close>

theorem C5_search_counterexample:
  "filteredBookings
     (initial\<lparr>searchQuery := '' '',
        bookings := [\<lparr>b_id = ''1'', b_name = ''Ann'', b_date = ''2024-05-01T00:00:00.000Z'',
                     b_service = ''Consultation''\<rparr>]\<rparr>)
   \<noteq> search_spec '' ''
        [\<lparr>b_id = ''1'', b_name = ''Ann'', b_date = ''2024-05-01T00:00:00.000Z'',
           b_service = ''Consultation''\<rparr>]"
  by code_simp

text \<open>
  C5, amended: for every collection and every query that is empty or holds a character
  that is not white space, the filter returns exactly the records whose name or service
  contains the query as a case-insensitive substring, in store order; for the empty query
  that is the whole collection.
\<close>

theorem C5_search:
  "searchQuery a = [] \<or> \<not> blank (searchQuery a) \<Longrightarrow>
   filteredBookings a = search_spec (searchQuery a) (bookings a)
   \<and> subseq (filteredBookings a) (bookings a)
   \<and> (searchQuery a = [] \<longrightarrow> filteredBookings a = bookings a)"
proof -
  assume q: "searchQuery a = [] \<or> \<not> blank (searchQuery a)"
  have sub: "subseq (filteredBookings a) (bookings a)"
    by (simp add: filteredBookings_def)
  show ?thesis
  proof (cases "searchQuery a = []")
    case True
    then have "filteredBookings a = bookings a"
      by (simp add: filteredBookings_def matchesQuery_def trim_def)
    moreover from True have "search_spec (searchQuery a) (bookings a) = bookings a"
      by (simp add: search_spec_def contains_ci_def toLowerCase_def)
    ultimately show ?thesis using sub by simp
  next
    case False
    with q have "trim (searchQuery a) \<noteq> []" by (simp add: trim_Nil_iff)
    then have "matchesQuery (searchQuery a)
        = (\<lambda>b. contains_ci (b_name b) (searchQuery a) \<or> contains_ci (b_service b) (searchQuery a))"
      by (simp add: fun_eq_iff matchesQuery_def contains_ci_def str_includes_sublist Let_def)
    then have "filteredBookings a = search_spec (searchQuery a) (bookings a)"
      by (simp add: filteredBookings_def search_spec_def)
    then show ?thesis using sub False by simp
  qed
qed

theorem C5_search_witness:
  "filteredBookings
     (initial\<lparr>searchQuery := ''jon'',
        bookings := [\<lparr>b_id = ''2'', b_name = ''Bob Jones'', b_date = ''2024-05-02T00:00:00.000Z'',
                     b_service = ''Massage''\<rparr>,
                    \<lparr>b_id = ''1'', b_name = ''Ann'', b_date = ''2024-05-01T00:00:00.000Z'',
                     b_service = ''Consultation''\<rparr>]\<rparr>)
   = [\<lparr>b_id = ''2'', b_name = ''Bob Jones'', b_date = ''2024-05-02T00:00:00.000Z'',
        b_service = ''Massage''\<rparr>]
   \<and> search_spec ''jon''
        [\<lparr>b_id = ''2'', b_name = ''Bob Jones'', b_date = ''2024-05-02T00:00:00.000Z'',
           b_service = ''Massage''\<rparr>,
         \<lparr>b_id = ''1'', b_name = ''Ann'', b_date = ''2024-05-01T00:00:00.000Z'',
           b_service = ''Consultation''\<rparr>]
     = [\<lparr>b_id = ''2'', b_name = ''Bob Jones'', b_date = ''2024-05-02T00:00:00.000Z'',
          b_service = ''Massage''\<rparr>]"
proof -
  let ?a = "initial\<lparr>searchQuery := ''jon'',
        bookings := [\<lparr>b_id = ''2'', b_name = ''Bob Jones'', b_date = ''2024-05-02T00:00:00.000Z'',
                     b_service = ''Massage''\<rparr>,
                    \<lparr>b_id = ''1'', b_name = ''Ann'', b_date = ''2024-05-01T00:00:00.000Z'',
                     b_service = ''Consultation''\<rparr>]\<rparr>"
  have q: "searchQuery ?a = [] \<or> \<not> blank (searchQuery ?a)"
    by (simp add: blank_def isWhiteSpace_def)
  have f: "filteredBookings ?a
      = [\<lparr>b_id = ''2'', b_name = ''Bob Jones'', b_date = ''2024-05-02T00:00:00.000Z'',
           b_service = ''Massage''\<rparr>]"
    by code_simp
  from C5_search [OF q] f show ?thesis by simp
qed

section \<open>Validation\<close>

text \<open>
  C1, as stated: for every input, validation fails with a name error exactly when the name
  is empty after trimming, with a date error exactly when the date is absent, with a
  service error exactly when the service is absent or outside the three options; on
  success the name of the result is the trimmed name. The date clause fails: the date
  schema also rejects a \<^verbatim>\<open>Date\<close> that is present and invalid.
\<close>

theorem C1_validation_counterexample:
  "\<not> (field_error ''date''
         \<lparr>in_name = ''Alice'', in_date = Some InvalidDate, in_service = Some ''Haircut''\<rparr>
       \<longleftrightarrow> in_date \<lparr>in_name = ''Alice'', in_date = Some InvalidDate,
                     in_service = Some ''Haircut''\<rparr> = None)"
  by (simp add: field_error_def safeParse_def name_schema_def date_schema_def
      service_schema_def issues_of_def SERVICE_OPTIONS_def trim_def isWhiteSpace_def)

text \<open>
  C1, amended: for every input, validation fails with a name error exactly when the name
  is empty after trimming, with a date error exactly when the date is absent or is an
  invalid date, with a service error exactly when the service is absent or outside the
  three options; it succeeds exactly when none of the three fails, and then the result
  holds the trimmed name, the time value of the date and the service.
\<close>

theorem C1_validation:
  "(field_error ''name'' i \<longleftrightarrow> trim (in_name i) = [])
   \<and> (field_error ''date'' i \<longleftrightarrow> in_date i = None \<or> in_date i = Some InvalidDate)
   \<and> (field_error ''service'' i \<longleftrightarrow> in_service i \<notin> Some ` set SERVICE_OPTIONS)
   \<and> ((\<exists>d. safeParse i = Inr d)
        \<longleftrightarrow> \<not> (field_error ''name'' i \<or> field_error ''date'' i \<or> field_error ''service'' i))
   \<and> (\<forall>d. safeParse i = Inr d \<longrightarrow>
          out_name d = trim (in_name i) \<and> in_date i = Some (TimeValue (out_date d))
          \<and> in_service i = Some (out_service d))"
proof -
  have n: "name_schema (in_name i)
      = (if trim (in_name i) = [] then Inl [Issue ''name'' ''Name is required'']
         else Inr (trim (in_name i)))"
    by (simp add: name_schema_def Let_def less_Suc0)
  have d: "date_schema (in_date i)
      = (if in_date i = None then Inl [Issue ''date'' ''Date is required'']
         else if in_date i = Some InvalidDate then Inl [Issue ''date'' ''Invalid date'']
         else Inr (case in_date i of Some (TimeValue t) \<Rightarrow> t))"
    by (simp add: date_schema_def split: option.splits jsdate.splits)
  have s: "service_schema (in_service i)
      = (if in_service i \<in> Some ` set SERVICE_OPTIONS then Inr (the (in_service i))
         else Inl [Issue ''service'' ''Service is required''])"
    by (auto simp: service_schema_def split: option.splits)
  have t: "in_date i \<noteq> None \<Longrightarrow> in_date i \<noteq> Some InvalidDate \<Longrightarrow>
      in_date i = Some (TimeValue (case in_date i of Some (TimeValue t) \<Rightarrow> t))"
    by (auto split: option.splits jsdate.splits)
  show ?thesis
    unfolding field_error_def safeParse_def n d s
    using t by (auto simp: issues_of_def)
qed

theorem C1_validation_witness:
  "safeParse \<lparr>in_name = ''  Alice '', in_date = Some (TimeValue 1714521600000),
              in_service = Some ''Haircut''\<rparr>
   = Inr \<lparr>out_name = ''Alice'', out_date = 1714521600000, out_service = ''Haircut''\<rparr>
   \<and> trim ''  Alice '' = ''Alice''
   \<and> \<not> field_error ''name'' \<lparr>in_name = ''  Alice '', in_date = Some (TimeValue 1714521600000),
              in_service = Some ''Haircut''\<rparr>"
proof -
  let ?i = "\<lparr>in_name = ''  Alice '', in_date = Some (TimeValue 1714521600000),
              in_service = Some ''Haircut''\<rparr>"
  have p: "safeParse ?i
      = Inr \<lparr>out_name = ''Alice'', out_date = 1714521600000, out_service = ''Haircut''\<rparr>"
    by (simp add: safeParse_def name_schema_def date_schema_def
      service_schema_def issues_of_def SERVICE_OPTIONS_def trim_def isWhiteSpace_def)
  from C1_validation [of ?i] p show ?thesis by auto
qed

section \<open>Submission and deletion\<close>

text \<open>
  C3. For every input whose name is empty or white space only, submission fails
  validation with a name error and leaves the collection in memory and the stored value
  as they were: nothing outside the form's error messages changes.
\<close>

theorem C3_blank_name_changes_nothing:
  "blank (name a) \<Longrightarrow>
   field_error ''name'' (form_input a)
   \<and> outcome (handleSubmit (a, w)) = Normal
   \<and> e_name (errors (app_after (handleSubmit (a, w)))) = Some ''Name is required''
   \<and> bookings (app_after (handleSubmit (a, w))) = bookings a
   \<and> world_after (handleSubmit (a, w)) = w
   \<and> app_after (handleSubmit (a, w)) = a\<lparr>errors := errors (app_after (handleSubmit (a, w)))\<rparr>"
proof -
  assume "blank (name a)"
  then have t: "trim (in_name (form_input a)) = []"
    by (simp add: trim_Nil_iff form_input_def)
  then obtain rest where iss: "safeParse (form_input a)
      = Inl (Issue ''name'' ''Name is required'' # rest)" "''name'' \<notin> set (map path rest)"
    by (auto simp: safeParse_def name_schema_def date_schema_def service_schema_def
        issues_of_def split: option.splits jsdate.splits)
  have keep: "e_name (foldl setField e js) = e_name e" if "''name'' \<notin> set (map path js)" for e js
    using that by (induction js arbitrary: e) (auto simp: setField_def)
  have "e_name (fieldErrors (Issue ''name'' ''Name is required'' # rest))
      = Some ''Name is required''"
    using keep [OF iss(2)] by (simp add: fieldErrors_def setField_def)
  then show ?thesis
    using iss by (simp add: handleSubmit_invalid field_error_def outcome_def app_after_def
        world_after_def)
qed

theorem C3_blank_name_changes_nothing_witness:
  "blank '' ''
   \<and> field_error ''name'' (form_input (initial\<lparr>name := '' ''\<rparr>))
   \<and> bookings (app_after (handleSubmit (initial\<lparr>name := '' ''\<rparr>,
        \<lparr>items = Map.empty, getItem_rejects = False, setItem_rejects = False,
         alerts = [], console = [], now = 1714600000000\<rparr>))) = []
   \<and> e_name (errors (app_after (handleSubmit (initial\<lparr>name := '' ''\<rparr>,
        \<lparr>items = Map.empty, getItem_rejects = False, setItem_rejects = False,
         alerts = [], console = [], now = 1714600000000\<rparr>))))
       = Some ''Name is required''"
proof -
  have b: "blank (name (initial\<lparr>name := '' ''\<rparr>))"
    by (simp add: blank_def isWhiteSpace_def)
  have b': "blank '' ''" by (simp add: blank_def isWhiteSpace_def)
  from C3_blank_name_changes_nothing [OF b] b' show ?thesis
    by (simp add: initial_def)
qed

text \<open>
  C4. For every collection and identifier, deletion removes the records with that
  identifier and hands the new collection to the storage; when no record has the
  identifier the collection is as before; the records that remain keep their order.
\<close>

theorem C4_delete:
  "outcome (handleDelete i (a, w)) = Normal
   \<and> bookings (app_after (handleDelete i (a, w))) = filter (\<lambda>b. b_id b \<noteq> i) (bookings a)
   \<and> i \<notin> b_id ` set (bookings (app_after (handleDelete i (a, w))))
   \<and> subseq (bookings (app_after (handleDelete i (a, w)))) (bookings a)
   \<and> (i \<notin> b_id ` set (bookings a) \<longrightarrow>
        bookings (app_after (handleDelete i (a, w))) = bookings a)
   \<and> (\<not> setItem_rejects w \<longrightarrow>
        items (world_after (handleDelete i (a, w))) STORAGE_KEY
          = Some (JSON_stringify (bookings (app_after (handleDelete i (a, w)))))
        \<and> stored_bookings (world_after (handleDelete i (a, w)))
          = Some (bookings (app_after (handleDelete i (a, w)))))"
proof -
  have same: "i \<notin> b_id ` set (bookings a) \<Longrightarrow>
      filter (\<lambda>b. b_id b \<noteq> i) (bookings a) = bookings a"
    by (induction "bookings a") (auto simp: filter_id_conv)
  have stored: "\<not> setItem_rejects w \<Longrightarrow>
      stored_bookings (world_after (handleDelete i (a, w)))
        = Some (filter (\<lambda>b. b_id b \<noteq> i) (bookings a))"
    by (rule stored_after_write) (simp add: handleDelete_run world_after_def)
  show ?thesis
    using same stored
    by (auto simp: handleDelete_run outcome_def app_after_def world_after_def)
qed

theorem C4_delete_witness:
  \<open>bookings (app_after (handleDelete ''1''
      (initial\<lparr>bookings :=
         [\<lparr>b_id = ''2'', b_name = ''Bob Jones'', b_date = ''2024-05-02T00:00:00.000Z'',
            b_service = ''Massage''\<rparr>,
          \<lparr>b_id = ''1'', b_name = ''Ann'', b_date = ''2024-05-01T00:00:00.000Z'',
            b_service = ''Consultation''\<rparr>]\<rparr>,
       \<lparr>items = Map.empty, getItem_rejects = False, setItem_rejects = False,
        alerts = [], console = [], now = 1714600000000\<rparr>)))
   = [\<lparr>b_id = ''2'', b_name = ''Bob Jones'', b_date = ''2024-05-02T00:00:00.000Z'',
        b_service = ''Massage''\<rparr>]
   \<and> items (world_after (handleDelete ''1''
      (initial\<lparr>bookings :=
         [\<lparr>b_id = ''2'', b_name = ''Bob Jones'', b_date = ''2024-05-02T00:00:00.000Z'',
            b_service = ''Massage''\<rparr>,
          \<lparr>b_id = ''1'', b_name = ''Ann'', b_date = ''2024-05-01T00:00:00.000Z'',
            b_service = ''Consultation''\<rparr>]\<rparr>,
       \<lparr>items = Map.empty, getItem_rejects = False, setItem_rejects = False,
        alerts = [], console = [], now = 1714600000000\<rparr>))) STORAGE_KEY
     = Some ''[{"id":"2","name":"Bob Jones","date":"2024-05-02T00:00:00.000Z","service":"Massage"}]''
   \<and> bookings (app_after (handleDelete ''9''
      (initial\<lparr>bookings :=
         [\<lparr>b_id = ''2'', b_name = ''Bob Jones'', b_date = ''2024-05-02T00:00:00.000Z'',
            b_service = ''Massage''\<rparr>,
          \<lparr>b_id = ''1'', b_name = ''Ann'', b_date = ''2024-05-01T00:00:00.000Z'',
            b_service = ''Consultation''\<rparr>]\<rparr>,
       \<lparr>items = Map.empty, getItem_rejects = False, setItem_rejects = False,
        alerts = [], console = [], now = 1714600000000\<rparr>)))
   = [\<lparr>b_id = ''2'', b_name = ''Bob Jones'', b_date = ''2024-05-02T00:00:00.000Z'',
        b_service = ''Massage''\<rparr>,
      \<lparr>b_id = ''1'', b_name = ''Ann'', b_date = ''2024-05-01T00:00:00.000Z'',
        b_service = ''Consultation''\<rparr>]\<close>
proof -
  let ?bs = "[\<lparr>b_id = ''2'', b_name = ''Bob Jones'', b_date = ''2024-05-02T00:00:00.000Z'',
            b_service = ''Massage''\<rparr>,
          \<lparr>b_id = ''1'', b_name = ''Ann'', b_date = ''2024-05-01T00:00:00.000Z'',
            b_service = ''Consultation''\<rparr>]"
  let ?a = "initial\<lparr>bookings := ?bs\<rparr>"
  let ?w = "\<lparr>items = Map.empty, getItem_rejects = False, setItem_rejects = False,
        alerts = [], console = [], now = 1714600000000\<rparr>"
  have absent: "''9'' \<notin> b_id ` set (bookings ?a)" by simp
  have ok: "\<not> setItem_rejects ?w" by simp
  have blob: \<open>JSON_stringify (filter (\<lambda>b. b_id b \<noteq> ''1'') ?bs)
      = ''[{"id":"2","name":"Bob Jones","date":"2024-05-02T00:00:00.000Z","service":"Massage"}]''\<close>
    by code_simp
  from C4_delete [of "''1''" ?a ?w] C4_delete [of "''9''" ?a ?w] absent ok blob
  show ?thesis by simp
qed

text \<open>
  C2. For every collection and every valid input, submission yields the new record in
  front of the old collection, one record more, and hands the new collection to the
  storage; the text written reads back as the collection in memory, by the parser and by
  a later load.
\<close>

theorem C2_submit_prepends_and_round_trips:
  "safeParse (form_input a) = Inr d \<Longrightarrow>
   outcome (handleSubmit (a, w)) = Normal
   \<and> bookings (app_after (handleSubmit (a, w)))
       = \<lparr>b_id = Number_toString (now w), b_name = trim (name a),
          b_date = toISOString (out_date d), b_service = service a\<rparr> # bookings a
   \<and> length (bookings (app_after (handleSubmit (a, w)))) = Suc (length (bookings a))
   \<and> JSON_parse (JSON_stringify (bookings (app_after (handleSubmit (a, w)))))
       = Inr (toJSON (bookings (app_after (handleSubmit (a, w)))))
   \<and> as_bookings (toJSON (bookings (app_after (handleSubmit (a, w)))))
       = Some (bookings (app_after (handleSubmit (a, w))))
   \<and> (\<not> setItem_rejects w \<longrightarrow>
        items (world_after (handleSubmit (a, w))) STORAGE_KEY
          = Some (JSON_stringify (bookings (app_after (handleSubmit (a, w)))))
        \<and> stored_bookings (world_after (handleSubmit (a, w)))
          = Some (bookings (app_after (handleSubmit (a, w))))
        \<and> (\<not> getItem_rejects w \<longrightarrow>
             bookings (app_after (loadBookings sl (a', world_after (handleSubmit (a, w)))))
               = bookings (app_after (handleSubmit (a, w)))))"
proof -
  assume d: "safeParse (form_input a) = Inr d"
  define bs where "bs = newBooking w d # bookings a"
  have n: "out_name d = trim (name a)" and s: "out_service d = service a"
    using d
    by (auto simp: safeParse_def form_input_def name_schema_def date_schema_def
        service_schema_def Let_def split: if_splits option.splits jsdate.splits)
  have new: "newBooking w d
      = \<lparr>b_id = Number_toString (now w), b_name = trim (name a),
         b_date = toISOString (out_date d), b_service = service a\<rparr>"
    by (simp add: newBooking_def n s trim_idem)
  have app: "bookings (app_after (handleSubmit (a, w))) = bs"
    and out: "outcome (handleSubmit (a, w)) = Normal"
    by (simp_all add: handleSubmit_valid [OF d] app_after_def outcome_def resetForm_def bs_def)
  have w1: "\<not> setItem_rejects w \<Longrightarrow>
      items (world_after (handleSubmit (a, w))) STORAGE_KEY = Some (JSON_stringify bs)"
    by (simp add: handleSubmit_valid [OF d] world_after_def bs_def)
  have w2: "getItem_rejects (world_after (handleSubmit (a, w))) = getItem_rejects w"
    by (simp add: handleSubmit_valid [OF d] world_after_def Alert_alert_def console_error_def)
  have load: "\<not> setItem_rejects w \<Longrightarrow> \<not> getItem_rejects w \<Longrightarrow>
      bookings (app_after (loadBookings sl (a', world_after (handleSubmit (a, w))))) = bs"
    using load_after_write [of "world_after (handleSubmit (a, w))" bs sl a'] w1 w2 by simp
  show ?thesis
    unfolding app out
    using w1 load stored_after_write [of "world_after (handleSubmit (a, w))" bs]
    by (simp add: JSON_parse_stringify as_bookings_toJSON) (simp add: bs_def new)
qed

theorem C2_submit_prepends_and_round_trips_witness:
  \<open>safeParse (form_input (initial\<lparr>name := ''Alice'',
        selectedDate := Some (TimeValue 1714521600000)\<rparr>))
   = Inr \<lparr>out_name = ''Alice'', out_date = 1714521600000, out_service = ''Haircut''\<rparr>
   \<and> bookings (app_after (handleSubmit
        (initial\<lparr>name := ''Alice'', selectedDate := Some (TimeValue 1714521600000)\<rparr>,
         \<lparr>items = Map.empty, getItem_rejects = False, setItem_rejects = False,
          alerts = [], console = [], now = 1714600000000\<rparr>)))
     = [\<lparr>b_id = ''1714600000000'', b_name = ''Alice'', b_date = ''2024-05-01T00:00:00.000Z'',
          b_service = ''Haircut''\<rparr>]
   \<and> items (world_after (handleSubmit
        (initial\<lparr>name := ''Alice'', selectedDate := Some (TimeValue 1714521600000)\<rparr>,
         \<lparr>items = Map.empty, getItem_rejects = False, setItem_rejects = False,
          alerts = [], console = [], now = 1714600000000\<rparr>))) STORAGE_KEY
     = Some ''[{"id":"1714600000000","name":"Alice","date":"2024-05-01T00:00:00.000Z","service":"Haircut"}]''
   \<and> bookings (app_after (loadBookings True (initial, world_after (handleSubmit
        (initial\<lparr>name := ''Alice'', selectedDate := Some (TimeValue 1714521600000)\<rparr>,
         \<lparr>items = Map.empty, getItem_rejects = False, setItem_rejects = False,
          alerts = [], console = [], now = 1714600000000\<rparr>)))))
     = [\<lparr>b_id = ''1714600000000'', b_name = ''Alice'', b_date = ''2024-05-01T00:00:00.000Z'',
          b_service = ''Haircut''\<rparr>]\<close>
proof -
  let ?a = "initial\<lparr>name := ''Alice'', selectedDate := Some (TimeValue 1714521600000)\<rparr>"
  let ?w = "\<lparr>items = Map.empty, getItem_rejects = False, setItem_rejects = False,
          alerts = [], console = [], now = 1714600000000\<rparr>"
  let ?d = "\<lparr>out_name = ''Alice'', out_date = 1714521600000, out_service = ''Haircut''\<rparr>"
  let ?b = "\<lparr>b_id = ''1714600000000'', b_name = ''Alice'', b_date = ''2024-05-01T00:00:00.000Z'',
          b_service = ''Haircut''\<rparr>"
  have d: "safeParse (form_input ?a) = Inr ?d" by code_simp
  have b: "\<lparr>b_id = Number_toString (now ?w), b_name = trim (name ?a),
          b_date = toISOString (out_date ?d), b_service = service ?a\<rparr> = ?b"
    by code_simp
  have blob: \<open>JSON_stringify [?b]
      = ''[{"id":"1714600000000","name":"Alice","date":"2024-05-01T00:00:00.000Z","service":"Haircut"}]''\<close>
    by code_simp
  have flags: "\<not> setItem_rejects ?w" "\<not> getItem_rejects ?w" "bookings ?a = []"
    by (simp_all add: initial_def)
  from C2_submit_prepends_and_round_trips [OF d, of ?w True initial] d
  show ?thesis
    unfolding b flags by (simp add: blob)
qed

text \<open>
  C7. When the write to the storage fails after an insert or a delete, the collection in
  memory keeps the new value, the user is told, and the failure does not leave the
  handler; the stored value is as before.
\<close>

theorem C7_failed_write_keeps_memory:
  "setItem_rejects w \<Longrightarrow>
   (\<forall>d. safeParse (form_input a) = Inr d \<longrightarrow>
      outcome (handleSubmit (a, w)) = Normal
      \<and> bookings (app_after (handleSubmit (a, w))) = newBooking w d # bookings a
      \<and> alerts (world_after (handleSubmit (a, w))) = alerts w @ [save_alert]
      \<and> items (world_after (handleSubmit (a, w))) = items w)
   \<and> outcome (handleDelete i (a, w)) = Normal
   \<and> bookings (app_after (handleDelete i (a, w))) = filter (\<lambda>b. b_id b \<noteq> i) (bookings a)
   \<and> alerts (world_after (handleDelete i (a, w))) = alerts w @ [save_alert]
   \<and> items (world_after (handleDelete i (a, w))) = items w
   \<and> outcome (persistBookings bs (a, w)) = Normal
   \<and> bookings (app_after (persistBookings bs (a, w))) = bookings a
   \<and> alerts (world_after (persistBookings bs (a, w))) = alerts w @ [save_alert]"
  by (simp add: handleSubmit_valid handleDelete_run persistBookings_run outcome_def
      app_after_def world_after_def resetForm_def Alert_alert_def console_error_def
      save_alert_def)

theorem C7_failed_write_keeps_memory_witness:
  "safeParse (form_input (initial\<lparr>name := ''Alice'',
        selectedDate := Some (TimeValue 1714521600000)\<rparr>))
   = Inr \<lparr>out_name = ''Alice'', out_date = 1714521600000, out_service = ''Haircut''\<rparr>
   \<and> bookings (app_after (handleSubmit
        (initial\<lparr>name := ''Alice'', selectedDate := Some (TimeValue 1714521600000)\<rparr>,
         \<lparr>items = Map.empty, getItem_rejects = False, setItem_rejects = True,
          alerts = [], console = [], now = 1714600000000\<rparr>)))
     = [\<lparr>b_id = ''1714600000000'', b_name = ''Alice'', b_date = ''2024-05-01T00:00:00.000Z'',
          b_service = ''Haircut''\<rparr>]
   \<and> alerts (world_after (handleSubmit
        (initial\<lparr>name := ''Alice'', selectedDate := Some (TimeValue 1714521600000)\<rparr>,
         \<lparr>items = Map.empty, getItem_rejects = False, setItem_rejects = True,
          alerts = [], console = [], now = 1714600000000\<rparr>)))
     = [(''Error'', ''Could not save bookings. Please try again.'')]
   \<and> items (world_after (handleSubmit
        (initial\<lparr>name := ''Alice'', selectedDate := Some (TimeValue 1714521600000)\<rparr>,
         \<lparr>items = Map.empty, getItem_rejects = False, setItem_rejects = True,
          alerts = [], console = [], now = 1714600000000\<rparr>))) STORAGE_KEY = None"
proof -
  let ?a = "initial\<lparr>name := ''Alice'', selectedDate := Some (TimeValue 1714521600000)\<rparr>"
  let ?w = "\<lparr>items = Map.empty, getItem_rejects = False, setItem_rejects = True,
          alerts = [], console = [], now = 1714600000000\<rparr>"
  let ?d = "\<lparr>out_name = ''Alice'', out_date = 1714521600000, out_service = ''Haircut''\<rparr>"
  have r: "setItem_rejects ?w" by simp
  have d: "safeParse (form_input ?a) = Inr ?d" by code_simp
  have b: "newBooking ?w ?d
      = \<lparr>b_id = ''1714600000000'', b_name = ''Alice'', b_date = ''2024-05-01T00:00:00.000Z'',
          b_service = ''Haircut''\<rparr>"
    by code_simp
  have e: "bookings ?a = []" by (simp add: initial_def)
  from C7_failed_write_keeps_memory [OF r, of ?a "[]" "[]"] d b e
  show ?thesis by (simp add: save_alert_def)
qed

section \<open>Loading\<close>

text \<open>
  C6. Loading yields the empty collection when the stored value is absent or empty, the
  parsed collection when a text is stored, and on a failed read or a text that does not
  parse it tells the user; no exception leaves the handler.
\<close>

theorem C6_load:
  "(\<not> getItem_rejects w \<and> (items w STORAGE_KEY = None \<or> items w STORAGE_KEY = Some []) \<longrightarrow>
      outcome (loadBookings sl (a, w)) = Normal
      \<and> bookings (app_after (loadBookings sl (a, w))) = []
      \<and> world_after (loadBookings sl (a, w)) = w)
   \<and> (\<forall>t v bs.
        \<not> getItem_rejects w \<and> items w STORAGE_KEY = Some t \<and> t \<noteq> []
        \<and> JSON_parse t = Inr v \<and> as_bookings v = Some bs \<longrightarrow>
          outcome (loadBookings sl (a, w)) = Normal
          \<and> bookings (app_after (loadBookings sl (a, w))) = bs
          \<and> world_after (loadBookings sl (a, w)) = w)
   \<and> (getItem_rejects w
        \<or> (\<exists>t e. items w STORAGE_KEY = Some t \<and> t \<noteq> [] \<and> JSON_parse t = Inl e) \<longrightarrow>
          outcome (loadBookings sl (a, w)) = Normal
          \<and> alerts (world_after (loadBookings sl (a, w))) = alerts w @ [load_alert]
          \<and> items (world_after (loadBookings sl (a, w))) = items w)
   \<and> (\<forall>e. outcome (loadBookings sl (a, w)) \<noteq> Throw e)"
proof -
  have 1: "\<not> getItem_rejects w \<and> (items w STORAGE_KEY = None \<or> items w STORAGE_KEY = Some [])
      \<Longrightarrow> outcome (loadBookings sl (a, w)) = Normal
      \<and> bookings (app_after (loadBookings sl (a, w))) = []
      \<and> world_after (loadBookings sl (a, w)) = w"
    using loadBookings_absent [of w sl a]
    by (simp add: outcome_def app_after_def world_after_def)
  have 2: "\<not> getItem_rejects w \<and> items w STORAGE_KEY = Some t \<and> t \<noteq> []
        \<and> JSON_parse t = Inr v \<and> as_bookings v = Some bs \<Longrightarrow>
          outcome (loadBookings sl (a, w)) = Normal
          \<and> bookings (app_after (loadBookings sl (a, w))) = bs
          \<and> world_after (loadBookings sl (a, w)) = w" for t v bs
    using loadBookings_parsed [of w t v bs sl a]
    by (simp add: outcome_def app_after_def world_after_def)
  have 3: "getItem_rejects w
        \<or> (\<exists>t e. items w STORAGE_KEY = Some t \<and> t \<noteq> [] \<and> JSON_parse t = Inl e) \<Longrightarrow>
          outcome (loadBookings sl (a, w)) = Normal
          \<and> alerts (world_after (loadBookings sl (a, w))) = alerts w @ [load_alert]
          \<and> items (world_after (loadBookings sl (a, w))) = items w"
  proof (cases "getItem_rejects w")
    case True
    then show ?thesis
      by (simp add: loadBookings_rejected outcome_def world_after_def Alert_alert_def
          console_error_def load_alert_def)
  next
    case False
    assume "getItem_rejects w
        \<or> (\<exists>t e. items w STORAGE_KEY = Some t \<and> t \<noteq> [] \<and> JSON_parse t = Inl e)"
    with False obtain t e where "items w STORAGE_KEY = Some t" "t \<noteq> []" "JSON_parse t = Inl e"
      by blast
    with False show ?thesis
      by (simp add: loadBookings_syntax [of w t e] outcome_def world_after_def Alert_alert_def
          console_error_def load_alert_def)
  qed
  show ?thesis
    using 1 2 3 loadBookings_never_throws [of sl a w] by blast
qed

theorem C6_load_witness:
  \<open>bookings (app_after (loadBookings True
      (initial\<lparr>bookings := [\<lparr>b_id = ''0'', b_name = ''Old'', b_date = ''d'',
                                b_service = ''Massage''\<rparr>]\<rparr>,
       \<lparr>items = Map.empty, getItem_rejects = False, setItem_rejects = False,
        alerts = [], console = [], now = 0\<rparr>))) = []
   \<and> bookings (app_after (loadBookings True
      (initial,
       \<lparr>items = [STORAGE_KEY \<mapsto>
          '' [ {"id":"7", "name":"J'' @ [CHR 0x5C] @ ''u00e9r'' @ [CHR 0x5C] @ ''u00F4me","date":"2024-05-01T00:00:00.000Z","service":"Massage"} ]''],
        getItem_rejects = False, setItem_rejects = False,
        alerts = [], console = [], now = 0\<rparr>)))
     = [\<lparr>b_id = ''7'', b_name = [CHR ''J'', CHR 0xE9, CHR ''r'', CHR 0xF4, CHR ''m'', CHR ''e''],
          b_date = ''2024-05-01T00:00:00.000Z'', b_service = ''Massage''\<rparr>]
   \<and> alerts (world_after (loadBookings True
      (initial,
       \<lparr>items = [STORAGE_KEY \<mapsto> ''[{"id":"7",]''],
        getItem_rejects = False, setItem_rejects = False,
        alerts = [], console = [], now = 0\<rparr>)))
     = [(''Error'', ''Could not load bookings. Please try again.'')]
   \<and> outcome (loadBookings True
      (initial,
       \<lparr>items = [STORAGE_KEY \<mapsto> ''[{"id":"7",]''],
        getItem_rejects = False, setItem_rejects = False,
        alerts = [], console = [], now = 0\<rparr>)) = Normal\<close>
proof -
  let ?a1 = "initial\<lparr>bookings := [\<lparr>b_id = ''0'', b_name = ''Old'', b_date = ''d'',
                                b_service = ''Massage''\<rparr>]\<rparr>"
  let ?w1 = "\<lparr>items = Map.empty, getItem_rejects = False, setItem_rejects = False,
        alerts = [], console = [], now = 0\<rparr>"
  let ?t2 = \<open>'' [ {"id":"7", "name":"J'' @ [CHR 0x5C] @ ''u00e9r'' @ [CHR 0x5C] @ ''u00F4me","date":"2024-05-01T00:00:00.000Z","service":"Massage"} ]''\<close>
  let ?w2 = "\<lparr>items = [STORAGE_KEY \<mapsto> ?t2],
        getItem_rejects = False, setItem_rejects = False,
        alerts = [], console = [], now = 0\<rparr>"
  let ?b2 = "\<lparr>b_id = ''7'', b_name = [CHR ''J'', CHR 0xE9, CHR ''r'', CHR 0xF4, CHR ''m'', CHR ''e''],
          b_date = ''2024-05-01T00:00:00.000Z'', b_service = ''Massage''\<rparr>"
  let ?t3 = \<open>''[{"id":"7",]''\<close>
  let ?w3 = "\<lparr>items = [STORAGE_KEY \<mapsto> ?t3],
        getItem_rejects = False, setItem_rejects = False,
        alerts = [], console = [], now = 0\<rparr>"
  have h1: "\<not> getItem_rejects ?w1
      \<and> (items ?w1 STORAGE_KEY = None \<or> items ?w1 STORAGE_KEY = Some [])"
    by simp
  have p2: "JSON_parse ?t2 = Inr (toJSON [?b2])" by code_simp
  have h2: "\<not> getItem_rejects ?w2 \<and> items ?w2 STORAGE_KEY = Some ?t2 \<and> ?t2 \<noteq> []
      \<and> JSON_parse ?t2 = Inr (toJSON [?b2]) \<and> as_bookings (toJSON [?b2]) = Some [?b2]"
    using p2 by (simp add: as_bookings_toJSON)
  have p3: "JSON_parse ?t3 = Inl SyntaxError" by code_simp
  have h3: "getItem_rejects ?w3
      \<or> (\<exists>t e. items ?w3 STORAGE_KEY = Some t \<and> t \<noteq> [] \<and> JSON_parse t = Inl e)"
    using p3 by simp
  from C6_load [of ?w1 True ?a1] h1
  have c1: "bookings (app_after (loadBookings True (?a1, ?w1))) = []" by blast
  from C6_load [of ?w2 True initial] h2
  have c2: "bookings (app_after (loadBookings True (initial, ?w2))) = [?b2]" by blast
  from C6_load [of ?w3 True initial] h3
  have c3: "outcome (loadBookings True (initial, ?w3)) = Normal
      \<and> alerts (world_after (loadBookings True (initial, ?w3))) = alerts ?w3 @ [load_alert]"
    by blast
  from c1 c2 c3 show ?thesis by (simp add: load_alert_def)
qed

text \<open>
  C10. When loading fails, by a rejected read or by a stored text that does not parse,
  the collection in memory is the one from before the load: neither cleared nor partly
  replaced.
\<close>

theorem C10_failed_load_keeps_memory:
  "getItem_rejects w
   \<or> (\<exists>t e. items w STORAGE_KEY = Some t \<and> t \<noteq> [] \<and> JSON_parse t = Inl e) \<Longrightarrow>
   bookings (app_after (loadBookings sl (a, w))) = bookings a
   \<and> app_after (loadBookings sl (a, w))
     = (if sl then a\<lparr>isLoading := False\<rparr> else a\<lparr>refreshing := False\<rparr>)"
proof (cases "getItem_rejects w")
  case True
  then show ?thesis by (simp add: loadBookings_rejected app_after_def)
next
  case False
  assume "getItem_rejects w
      \<or> (\<exists>t e. items w STORAGE_KEY = Some t \<and> t \<noteq> [] \<and> JSON_parse t = Inl e)"
  with False obtain t e where "items w STORAGE_KEY = Some t" "t \<noteq> []" "JSON_parse t = Inl e"
    by blast
  with False show ?thesis by (simp add: loadBookings_syntax [of w t e] app_after_def)
qed

theorem C10_failed_load_keeps_memory_witness:
  \<open>bookings (app_after (loadBookings False
      (initial\<lparr>bookings := [\<lparr>b_id = ''0'', b_name = ''Old'', b_date = ''d'',
                                b_service = ''Massage''\<rparr>]\<rparr>,
       \<lparr>items = [STORAGE_KEY \<mapsto> ''[{"id":"7",]''],
        getItem_rejects = False, setItem_rejects = False,
        alerts = [], console = [], now = 0\<rparr>)))
   = [\<lparr>b_id = ''0'', b_name = ''Old'', b_date = ''d'', b_service = ''Massage''\<rparr>]
   \<and> bookings (app_after (loadBookings True
      (initial\<lparr>bookings := [\<lparr>b_id = ''0'', b_name = ''Old'', b_date = ''d'',
                                b_service = ''Massage''\<rparr>]\<rparr>,
       \<lparr>items = Map.empty, getItem_rejects = True, setItem_rejects = False,
        alerts = [], console = [], now = 0\<rparr>)))
   = [\<lparr>b_id = ''0'', b_name = ''Old'', b_date = ''d'', b_service = ''Massage''\<rparr>]\<close>
proof -
  let ?a = "initial\<lparr>bookings := [\<lparr>b_id = ''0'', b_name = ''Old'', b_date = ''d'',
                                b_service = ''Massage''\<rparr>]\<rparr>"
  let ?t = \<open>''[{"id":"7",]''\<close>
  let ?w = "\<lparr>items = [STORAGE_KEY \<mapsto> ?t],
        getItem_rejects = False, setItem_rejects = False,
        alerts = [], console = [], now = 0\<rparr>"
  let ?w' = "\<lparr>items = Map.empty, getItem_rejects = True, setItem_rejects = False,
        alerts = [], console = [], now = 0\<rparr>"
  have p: "JSON_parse ?t = Inl SyntaxError" by code_simp
  have h: "getItem_rejects ?w
      \<or> (\<exists>t e. items ?w STORAGE_KEY = Some t \<and> t \<noteq> [] \<and> JSON_parse t = Inl e)"
    using p by simp
  have h': "getItem_rejects ?w'
      \<or> (\<exists>t e. items ?w' STORAGE_KEY = Some t \<and> t \<noteq> [] \<and> JSON_parse t = Inl e)"
    by simp
  from C10_failed_load_keeps_memory [OF h, of False ?a]
    C10_failed_load_keeps_memory [OF h', of True ?a]
  show ?thesis by simp
qed

section \<open>The invariant of the store\<close>

text \<open>
  C8, as stated: every booking of the collection has a name that is not empty after
  trimming and a service among the three options, an invariant kept by load, insert and
  delete. Load does not keep it: the stored text is parsed and taken as it is, so a stored
  record with an empty name enters the collection.
\<close>

theorem C8_invariant_counterexample:
  \<open>store_invariant initial
   \<and> outcome (loadBookings True
        (initial,
         \<lparr>items = [STORAGE_KEY \<mapsto>
            ''[{"id":"1","name":"","date":"2024-05-01T00:00:00.000Z","service":"Haircut"}]''],
          getItem_rejects = False, setItem_rejects = False,
          alerts = [], console = [], now = 0\<rparr>)) = Normal
   \<and> bookings (app_after (loadBookings True
        (initial,
         \<lparr>items = [STORAGE_KEY \<mapsto>
            ''[{"id":"1","name":"","date":"2024-05-01T00:00:00.000Z","service":"Haircut"}]''],
          getItem_rejects = False, setItem_rejects = False,
          alerts = [], console = [], now = 0\<rparr>)))
     = [\<lparr>b_id = ''1'', b_name = '''', b_date = ''2024-05-01T00:00:00.000Z'',
          b_service = ''Haircut''\<rparr>]
   \<and> \<not> store_invariant (app_after (loadBookings True
        (initial,
         \<lparr>items = [STORAGE_KEY \<mapsto>
            ''[{"id":"1","name":"","date":"2024-05-01T00:00:00.000Z","service":"Haircut"}]''],
          getItem_rejects = False, setItem_rejects = False,
          alerts = [], console = [], now = 0\<rparr>)))\<close>
proof -
  let ?t = \<open>''[{"id":"1","name":"","date":"2024-05-01T00:00:00.000Z","service":"Haircut"}]''\<close>
  let ?w = "\<lparr>items = [STORAGE_KEY \<mapsto> ?t],
          getItem_rejects = False, setItem_rejects = False,
          alerts = [], console = [], now = 0\<rparr>"
  let ?b = "\<lparr>b_id = ''1'', b_name = '''', b_date = ''2024-05-01T00:00:00.000Z'',
          b_service = ''Haircut''\<rparr>"
  have p: "JSON_parse ?t = Inr (toJSON [?b])" by code_simp
  have l: "loadBookings True (initial, ?w)
      = (Normal, initial\<lparr>bookings := [?b], isLoading := False\<rparr>, ?w)"
    using loadBookings_parsed [of ?w ?t "toJSON [?b]" "[?b]" True initial] p
    by (simp add: as_bookings_toJSON)
  have i: "store_invariant initial"
    by (simp add: store_invariant_def initial_def)
  have n: "\<not> store_invariant (initial\<lparr>bookings := [?b], isLoading := False\<rparr>)"
    by (simp add: store_invariant_def valid_booking_def trim_def)
  show ?thesis
    using i n by (simp add: l outcome_def app_after_def)
qed

text \<open>
  C8, amended: every booking of the collection has a name that is not empty after
  trimming and a service among the three options, an invariant kept by insert and by
  delete, and by load whenever the stored text, if it parses, is a collection of bookings
  that satisfy the two constraints: load takes the stored records as they are. Insert,
  delete and load leave such a text in the storage.
\<close>

theorem C8_invariant:
  "store_invariant a \<Longrightarrow>
   store_invariant (app_after (handleSubmit (a, w)))
   \<and> store_invariant (app_after (handleDelete i (a, w)))
   \<and> (storage_valid w \<longrightarrow>
        outcome (loadBookings sl (a, w)) = Normal
        \<and> store_invariant (app_after (loadBookings sl (a, w)))
        \<and> storage_valid (world_after (loadBookings sl (a, w)))
        \<and> storage_valid (world_after (handleSubmit (a, w)))
        \<and> storage_valid (world_after (handleDelete i (a, w))))"
proof -
  assume inv: "store_invariant a"
  have submit: "store_invariant (app_after (handleSubmit (a, w)))"
    and submit_w: "storage_valid w \<Longrightarrow> storage_valid (world_after (handleSubmit (a, w)))"
  proof -
    show "store_invariant (app_after (handleSubmit (a, w)))"
    proof (cases "safeParse (form_input a)")
      case (Inl iss)
      then show ?thesis
        using inv by (simp add: handleSubmit_invalid app_after_def store_invariant_def)
    next
      case (Inr d)
      then have "trim (out_name d) \<noteq> []" "out_name d = trim (name a)"
        "out_service d \<in> set SERVICE_OPTIONS"
        by (auto simp: safeParse_def form_input_def name_schema_def date_schema_def
            service_schema_def Let_def trim_idem split: if_splits option.splits jsdate.splits)
      then have "valid_booking (newBooking w d)"
        by (simp add: valid_booking_def newBooking_def trim_idem)
      then show ?thesis
        using inv
        by (simp add: handleSubmit_valid [OF Inr] app_after_def store_invariant_def
            resetForm_def)
    qed
    then have new: "list_all valid_booking (bookings (app_after (handleSubmit (a, w))))"
      by (simp add: store_invariant_def)
    assume st: "storage_valid w"
    show "storage_valid (world_after (handleSubmit (a, w)))"
    proof (cases "safeParse (form_input a)")
      case (Inl iss)
      then show ?thesis using st by (simp add: handleSubmit_invalid world_after_def)
    next
      case (Inr d)
      from new have "list_all valid_booking (newBooking w d # bookings a)"
        by (simp add: handleSubmit_valid [OF Inr] app_after_def resetForm_def)
      from persisted_storage_valid [OF this st] show ?thesis
        by (simp add: handleSubmit_valid [OF Inr] world_after_def)
    qed
  qed
  have delete: "store_invariant (app_after (handleDelete i (a, w)))"
    using inv
    by (simp add: handleDelete_run app_after_def store_invariant_def list_all_iff)
  have delete_w: "storage_valid (world_after (handleDelete i (a, w)))" if st: "storage_valid w"
  proof -
    from inv have "list_all valid_booking (filter (\<lambda>b. b_id b \<noteq> i) (bookings a))"
      by (simp add: store_invariant_def list_all_iff)
    from persisted_storage_valid [OF this st] show ?thesis
      by (simp add: handleDelete_run world_after_def)
  qed
  have load: "outcome (loadBookings sl (a, w)) = Normal
      \<and> store_invariant (app_after (loadBookings sl (a, w)))
      \<and> storage_valid (world_after (loadBookings sl (a, w)))" if st: "storage_valid w"
    using loadBookings_storage_valid [OF st, of sl a] inv
    by (auto simp: store_invariant_def)
  from submit submit_w delete delete_w load show ?thesis by blast
qed

theorem C8_invariant_witness:
  \<open>store_invariant (initial\<lparr>name := ''Alice'', selectedDate := Some (TimeValue 1714521600000),
       bookings := [\<lparr>b_id = ''1'', b_name = ''Ann'', b_date = ''2024-05-01T00:00:00.000Z'',
                    b_service = ''Consultation''\<rparr>]\<rparr>)
   \<and> storage_valid
        \<lparr>items = [STORAGE_KEY \<mapsto>
           ''[{"id":"2","name":"Bob Jones","date":"2024-05-02T00:00:00.000Z","service":"Massage"}]''],
         getItem_rejects = False, setItem_rejects = False,
         alerts = [], console = [], now = 1714600000000\<rparr>
   \<and> store_invariant (app_after (handleSubmit
        (initial\<lparr>name := ''Alice'', selectedDate := Some (TimeValue 1714521600000),
           bookings := [\<lparr>b_id = ''1'', b_name = ''Ann'', b_date = ''2024-05-01T00:00:00.000Z'',
                        b_service = ''Consultation''\<rparr>]\<rparr>,
         \<lparr>items = [STORAGE_KEY \<mapsto>
           ''[{"id":"2","name":"Bob Jones","date":"2024-05-02T00:00:00.000Z","service":"Massage"}]''],
          getItem_rejects = False, setItem_rejects = False,
          alerts = [], console = [], now = 1714600000000\<rparr>)))
   \<and> outcome (loadBookings True
        (initial\<lparr>name := ''Alice'', selectedDate := Some (TimeValue 1714521600000),
           bookings := [\<lparr>b_id = ''1'', b_name = ''Ann'', b_date = ''2024-05-01T00:00:00.000Z'',
                        b_service = ''Consultation''\<rparr>]\<rparr>,
         \<lparr>items = [STORAGE_KEY \<mapsto>
           ''[{"id":"2","name":"Bob Jones","date":"2024-05-02T00:00:00.000Z","service":"Massage"}]''],
          getItem_rejects = False, setItem_rejects = False,
          alerts = [], console = [], now = 1714600000000\<rparr>)) = Normal
   \<and> store_invariant (app_after (loadBookings True
        (initial\<lparr>name := ''Alice'', selectedDate := Some (TimeValue 1714521600000),
           bookings := [\<lparr>b_id = ''1'', b_name = ''Ann'', b_date = ''2024-05-01T00:00:00.000Z'',
                        b_service = ''Consultation''\<rparr>]\<rparr>,
         \<lparr>items = [STORAGE_KEY \<mapsto>
           ''[{"id":"2","name":"Bob Jones","date":"2024-05-02T00:00:00.000Z","service":"Massage"}]''],
          getItem_rejects = False, setItem_rejects = False,
          alerts = [], console = [], now = 1714600000000\<rparr>)))
   \<and> storage_valid (world_after (handleSubmit
        (initial\<lparr>name := ''Alice'', selectedDate := Some (TimeValue 1714521600000),
           bookings := [\<lparr>b_id = ''1'', b_name = ''Ann'', b_date = ''2024-05-01T00:00:00.000Z'',
                        b_service = ''Consultation''\<rparr>]\<rparr>,
         \<lparr>items = [STORAGE_KEY \<mapsto>
           ''[{"id":"2","name":"Bob Jones","date":"2024-05-02T00:00:00.000Z","service":"Massage"}]''],
          getItem_rejects = False, setItem_rejects = False,
          alerts = [], console = [], now = 1714600000000\<rparr>)))\<close>
proof -
  let ?a = "initial\<lparr>name := ''Alice'', selectedDate := Some (TimeValue 1714521600000),
       bookings := [\<lparr>b_id = ''1'', b_name = ''Ann'', b_date = ''2024-05-01T00:00:00.000Z'',
                    b_service = ''Consultation''\<rparr>]\<rparr>"
  let ?t = \<open>''[{"id":"2","name":"Bob Jones","date":"2024-05-02T00:00:00.000Z","service":"Massage"}]''\<close>
  let ?w = "\<lparr>items = [STORAGE_KEY \<mapsto> ?t],
         getItem_rejects = False, setItem_rejects = False,
         alerts = [], console = [], now = 1714600000000\<rparr>"
  let ?b = "\<lparr>b_id = ''2'', b_name = ''Bob Jones'', b_date = ''2024-05-02T00:00:00.000Z'',
               b_service = ''Massage''\<rparr>"
  have inv: "store_invariant ?a"
    by (simp add: store_invariant_def valid_booking_def trim_def isWhiteSpace_def
        SERVICE_OPTIONS_def)
  have p: "JSON_parse ?t = Inr (toJSON [?b])" by code_simp
  have v: "list_all valid_booking [?b]"
    by (simp add: valid_booking_def trim_def isWhiteSpace_def SERVICE_OPTIONS_def)
  have st: "storage_valid ?w"
    using p v by (simp add: storage_valid_def as_bookings_toJSON)
  from C8_invariant [OF inv, of ?w "''1''" True] st inv
  show ?thesis by simp
qed

end
